theory Spec2Isabelle
  imports Main
begin

section \<open>Python values and their printed form\<close>

text \<open>
  The values that travel through the tools: what \<^verbatim>\<open>json.loads\<close> returns, what a cell
  holds when it is read back, and what the tools return. A number is identified by the
  text Python's \<^verbatim>\<open>repr\<close> prints for it (\<^verbatim>\<open>30\<close>, \<^verbatim>\<open>30.0\<close>), so that no floating-point
  arithmetic is needed. A dict keeps its items in insertion order. Characters are read as
  code points below 256.
\<close>

datatype pyval =
    PNone
  | PBool bool
  | PNum string
  | PStr string
  | PList "pyval list"
  | PDict "(string \<times> pyval) list"

text \<open>\<^verbatim>\<open>sep.join(parts)\<close>.\<close>

fun py_join :: "string \<Rightarrow> string list \<Rightarrow> string" where
  "py_join sep [] = []"
| "py_join sep [x] = x"
| "py_join sep (x # y # ys) = x @ sep @ py_join sep (y # ys)"

definition hex_digit :: "nat \<Rightarrow> char" where
  "hex_digit n = ''0123456789abcdef'' ! (n mod 16)"

text \<open>Python's \<^verbatim>\<open>str.isprintable\<close> on one code point below 256.\<close>

definition printable :: "char \<Rightarrow> bool" where
  "printable c =
     (let n = (of_char c :: nat)
      in (32 \<le> n \<and> n < 127) \<or> (161 \<le> n \<and> n \<noteq> 173))"

text \<open>
  \<^verbatim>\<open>repr\<close> of a string: double quotes when the text has a single quote and no double
  quote, single quotes otherwise; the quote in use and the backslash are escaped, tab,
  line feed and carriage return are written \<^verbatim>\<open>\t\<close>, \<^verbatim>\<open>\n\<close>, \<^verbatim>\<open>\r\<close>, and any other
  unprintable character as \<^verbatim>\<open>\xNN\<close>.
\<close>

definition repr_quote :: "string \<Rightarrow> char" where
  "repr_quote s =
     (if CHR 0x27 \<in> set s \<and> CHR 0x22 \<notin> set s then CHR 0x22 else CHR 0x27)"

definition repr_char :: "char \<Rightarrow> char \<Rightarrow> string" where
  "repr_char q c =
     (if c = q \<or> c = CHR 0x5C then [CHR 0x5C, c]
      else if c = CHR 0x09 then [CHR 0x5C, CHR ''t'']
      else if c = CHR 0x0A then [CHR 0x5C, CHR ''n'']
      else if c = CHR 0x0D then [CHR 0x5C, CHR ''r'']
      else if printable c then [c]
      else [CHR 0x5C, CHR ''x'',
            hex_digit ((of_char c :: nat) div 16), hex_digit ((of_char c :: nat) mod 16)])"

definition repr_str :: "string \<Rightarrow> string" where
  "repr_str s = (let q = repr_quote s in [q] @ concat (map (repr_char q) s) @ [q])"

fun py_repr :: "pyval \<Rightarrow> string" where
  "py_repr PNone = ''None''"
| "py_repr (PBool b) = (if b then ''True'' else ''False'')"
| "py_repr (PNum r) = r"
| "py_repr (PStr s) = repr_str s"
| "py_repr (PList vs) = ''['' @ py_join '', '' (map py_repr vs) @ '']''"
| "py_repr (PDict kvs) =
     ''{'' @ py_join '', '' (map (\<lambda>kv. repr_str (fst kv) @ '': '' @ py_repr (snd kv)) kvs) @ ''}''"

text \<open>\<^verbatim>\<open>str(v)\<close>: a string prints as itself, everything else as its \<^verbatim>\<open>repr\<close>.\<close>

fun py_str :: "pyval \<Rightarrow> string" where
  "py_str (PStr s) = s"
| "py_str v = py_repr v"

text \<open>\<^verbatim>\<open>isinstance(v, list)\<close> and \<^verbatim>\<open>isinstance(v, dict)\<close>.\<close>

fun is_list :: "pyval \<Rightarrow> bool" where
  "is_list (PList _) = True"
| "is_list _ = False"

fun is_dict :: "pyval \<Rightarrow> bool" where
  "is_dict (PDict _) = True"
| "is_dict _ = False"

section \<open>The spreadsheet and the library calls\<close>

text \<open>
  A workbook is its sheets in order; a sheet is a name and a grid of cells, addressed by
  (row, column) from (1, 1). A cell holds the value that reading it returns: \<open>PNone\<close>
  when it is empty, a \<open>PStr\<close>, a \<open>PNum\<close> or a \<open>PBool\<close> otherwise. A range is its top-left
  and bottom-right cell.
\<close>

type_synonym grid = "nat \<times> nat \<Rightarrow> pyval"

record sheet =
  name :: string
  cells :: grid

type_synonym workbook = "sheet list"

type_synonym rng = "(nat \<times> nat) \<times> (nat \<times> nat)"

text \<open>
  An exception of class \<^verbatim>\<open>Exception\<close>, in the two classes the handlers of
  \<^verbatim>\<open>safe_excel_operation\<close> tell apart, each with the text \<^verbatim>\<open>str(e)\<close> of the
  exception. The library calls fail with exceptions of this class.
\<close>

datatype exn = FileNotFoundError string | OtherError string

text \<open>
  What a function given to \<^verbatim>\<open>safe_excel_operation\<close> can raise: an exception of class
  \<^verbatim>\<open>Exception\<close>, or one that is not of that class (\<^verbatim>\<open>KeyboardInterrupt\<close>,
  \<^verbatim>\<open>SystemExit\<close>), with its text. A result \<open>Inl s\<close> of a function of this theory
  is the exception \<open>s\<close> leaving the function.
\<close>

datatype signal = Error exn | Interrupt string

text \<open>
  How a call of \<^verbatim>\<open>json.loads\<close> ends: with a value, with \<^verbatim>\<open>JSONDecodeError\<close>, or with
  another exception (\<^verbatim>\<open>RecursionError\<close> on deep nesting, \<^verbatim>\<open>ValueError\<close> on a
  number with too many digits), given by its text.
\<close>

datatype loaded = Loaded pyval | JSONDecodeError | LoadError string

text \<open>
  The calls made on the spreadsheet library, in the order they were made. \<open>RangeRead\<close>,
  \<open>RangeWrite\<close> and \<open>RangeClear\<close> carry the sheet name and the address text, and are
  recorded when the statement that reads, assigns or clears the range is reached.
\<close>

datatype call =
    AppStart
  | BooksOpen
  | RangeRead string string
  | RangeWrite string string pyval
  | RangeClear string string
  | BookSave
  | BookClose
  | AppQuit

text \<open>
  What the code takes from outside the repository, as parameters:
  \<^item> \<open>json_loads\<close>: \<^verbatim>\<open>json.loads\<close>;
  \<^item> \<open>resolve\<close>: the range an address text denotes on a sheet, or the text of the
    exception that \<^verbatim>\<open>sheet.range(address)\<close> ends in when the address is not valid;
  \<^item> \<open>enter\<close>: what a cell holds after the spreadsheet has taken one scalar (it may
    reinterpret it, a numeric text becoming a number);
  \<^item> \<open>irregular_write\<close>: the outcome of assigning to a range a nested list that is not a
    non-empty rectangular table of scalars: the text of the exception, if one is raised,
    and the grid as the call leaves it;
  \<^item> the faults: the exception, if any, that starting the application, opening the
    document, enumerating its sheets, saving and closing end in.
\<close>

record library =
  json_loads :: "string \<Rightarrow> loaded"
  resolve :: "string \<Rightarrow> string + rng"
  enter :: "pyval \<Rightarrow> pyval"
  irregular_write :: "rng \<Rightarrow> pyval \<Rightarrow> grid \<Rightarrow> string option \<times> grid"
  app_fault :: "exn option"
  open_fault :: "exn option"
  sheets_fault :: "string option"
  save_fault :: "exn option"
  close_fault :: "exn option"

text \<open>
  The machine the code runs on: the document stored at \<^verbatim>\<open>EXCEL_FILE_PATH\<close> (\<open>None\<close>
  when the path does not exist), the number of spreadsheet applications started and not
  quit, the number of documents open, and the calls made so far.
\<close>

record world =
  stored :: "workbook option"
  live_apps :: nat
  open_books :: nat
  calls :: "call list"

definition EXCEL_FILE_PATH :: string where
  "EXCEL_FILE_PATH = ''test.xlsx''"

text \<open>
  \<^verbatim>\<open>sheet.range(address).value\<close>: a scalar for one cell, a flat list for one row or one
  column, a list of rows otherwise.
\<close>

definition range_value :: "grid \<Rightarrow> rng \<Rightarrow> pyval" where
  "range_value g r =
     (case r of ((r1, c1), (r2, c2)) \<Rightarrow>
        if r1 = r2 \<and> c1 = c2 then g (r1, c1)
        else if r1 = r2 then PList (map (\<lambda>c. g (r1, c)) [c1..<Suc c2])
        else if c1 = c2 then PList (map (\<lambda>r. g (r, c1)) [r1..<Suc r2])
        else PList (map (\<lambda>r. PList (map (\<lambda>c. g (r, c)) [c1..<Suc c2])) [r1..<Suc r2]))"

definition in_rng :: "rng \<Rightarrow> nat \<times> nat \<Rightarrow> bool" where
  "in_rng r p =
     (case r of ((r1, c1), (r2, c2)) \<Rightarrow>
        r1 \<le> fst p \<and> fst p \<le> r2 \<and> c1 \<le> snd p \<and> snd p \<le> c2)"

text \<open>Assigning one scalar to a range puts it in every cell of the range.\<close>

definition fill_range :: "library \<Rightarrow> rng \<Rightarrow> pyval \<Rightarrow> grid \<Rightarrow> grid" where
  "fill_range lib r v g = (\<lambda>p. if in_rng r p then enter lib v else g p)"

text \<open>\<^verbatim>\<open>clear_contents()\<close> empties every cell of the range.\<close>

definition clear_contents :: "rng \<Rightarrow> grid \<Rightarrow> grid" where
  "clear_contents r g = (\<lambda>p. if in_rng r p then PNone else g p)"

fun is_scalar :: "pyval \<Rightarrow> bool" where
  "is_scalar (PList _) = False"
| "is_scalar (PDict _) = False"
| "is_scalar _ = True"

definition table :: "pyval list list \<Rightarrow> bool" where
  "table rows =
     (rows \<noteq> [] \<and> hd rows \<noteq> [] \<and> list_all (\<lambda>row. length row = length (hd rows)) rows
      \<and> list_all (list_all is_scalar) rows)"

text \<open>
  Assigning a table to a range writes it as a block anchored at the top-left cell of the
  range, row \<open>i\<close> of the table on the \<open>i\<close>-th row from the anchor.
\<close>

definition put_block :: "library \<Rightarrow> nat \<times> nat \<Rightarrow> pyval list list \<Rightarrow> grid \<Rightarrow> grid" where
  "put_block lib anchor rows g =
     (\<lambda>p. if fst anchor \<le> fst p \<and> fst p - fst anchor < length rows
              \<and> snd anchor \<le> snd p \<and> snd p - snd anchor < length (hd rows)
           then enter lib (rows ! (fst p - fst anchor) ! (snd p - snd anchor))
           else g p)"

fun unlist :: "pyval \<Rightarrow> pyval list" where
  "unlist (PList vs) = vs"
| "unlist _ = []"

definition range_set_rows :: "library \<Rightarrow> rng \<Rightarrow> pyval list \<Rightarrow> grid \<Rightarrow> string option \<times> grid" where
  "range_set_rows lib r data g =
     (if list_all is_list data \<and> table (map unlist data)
      then (None, put_block lib (fst r) (map unlist data) g)
      else irregular_write lib r (PList data) g)"

definition find_sheet :: "workbook \<Rightarrow> string \<Rightarrow> sheet option" where
  "find_sheet book n = find (\<lambda>s. name s = n) book"

definition put_sheet :: "workbook \<Rightarrow> string \<Rightarrow> grid \<Rightarrow> workbook" where
  "put_sheet book n g = map (\<lambda>s. if name s = n then s\<lparr>cells := g\<rparr> else s) book"

section \<open>The session guard\<close>

text \<open>
  An operation is the function \<^verbatim>\<open>safe_excel_operation\<close> is given, applied to its keyword
  arguments: from the open document to what it returns or raises, the document as it
  leaves it, and the library calls it made.
\<close>

type_synonym operation = "workbook \<Rightarrow> (signal + pyval) \<times> workbook \<times> call list"

text \<open>
  The \<^verbatim>\<open>finally\<close> block: \<^verbatim>\<open>book.close()\<close> when \<^verbatim>\<open>book\<close> was bound, an exception of
  the close being printed and dropped; for the application, \<^verbatim>\<open>pass\<close>
  (\<^verbatim>\<open>app.quit()\<close> is commented out).
\<close>

definition release :: "library \<Rightarrow> bool \<Rightarrow> world \<Rightarrow> world" where
  "release lib book_bound w =
     (if book_bound
      then (case close_fault lib of
              None \<Rightarrow> w\<lparr>open_books := open_books w - 1, calls := calls w @ [BookClose]\<rparr>
            | Some e \<Rightarrow> w\<lparr>calls := calls w @ [BookClose]\<rparr>)
      else w)"

text \<open>
  The \<^verbatim>\<open>try\<close> body followed by the \<^verbatim>\<open>finally\<close> block, the same in both files: the
  result of the operation, or the exception that leaves the \<^verbatim>\<open>try\<close> body.
  Closing a document does not save it.
\<close>

definition session :: "library \<Rightarrow> operation \<Rightarrow> world \<Rightarrow> (signal + pyval) \<times> world" where
  "session lib func w =
     (case app_fault lib of
        Some e \<Rightarrow> (Inl (Error e), release lib False (w\<lparr>calls := calls w @ [AppStart]\<rparr>))
      | None \<Rightarrow>
          (let w1 = w\<lparr>live_apps := Suc (live_apps w), calls := calls w @ [AppStart]\<rparr> in
           case stored w1 of
             None \<Rightarrow>
               (Inl (Error (FileNotFoundError (''Excel file not found: '' @ EXCEL_FILE_PATH))),
                release lib False w1)
           | Some wb \<Rightarrow>
               (case open_fault lib of
                  Some e \<Rightarrow>
                    (Inl (Error e), release lib False (w1\<lparr>calls := calls w1 @ [BooksOpen]\<rparr>))
                | None \<Rightarrow>
                    (let w2 = w1\<lparr>open_books := Suc (open_books w1),
                                 calls := calls w1 @ [BooksOpen]\<rparr> in
                     case func wb of
                       (Inl s, wb', cs) \<Rightarrow>
                         (Inl s, release lib True (w2\<lparr>calls := calls w2 @ cs\<rparr>))
                     | (Inr result, wb', cs) \<Rightarrow>
                         (case save_fault lib of
                            Some e \<Rightarrow>
                              (Inl (Error e),
                               release lib True (w2\<lparr>calls := calls w2 @ cs @ [BookSave]\<rparr>))
                          | None \<Rightarrow>
                              (Inr result,
                               release lib True
                                 (w2\<lparr>stored := Some wb', calls := calls w2 @ cs @ [BookSave]\<rparr>)))))))"

text \<open>
  The \<^verbatim>\<open>except\<close> clauses of \<^verbatim>\<open>excel_agnet.py\<close>: the text returned for an exception of
  class \<^verbatim>\<open>FileNotFoundError\<close> and for any other \<^verbatim>\<open>Exception\<close>. Their \<^verbatim>\<open>print\<close>
  and \<^verbatim>\<open>traceback.print_exc\<close> calls write to the console and return.
\<close>

fun except_clauses :: "exn \<Rightarrow> pyval" where
  "except_clauses (FileNotFoundError e) = PStr (''Error: '' @ e)"
| "except_clauses (OtherError e) = PStr (''An Excel error occurred: '' @ e)"

text \<open>
  \<^verbatim>\<open>safe_excel_operation\<close> of \<^verbatim>\<open>excel_agnet.py\<close>: the result, or an error text. An
  exception that no clause names leaves the function once the \<^verbatim>\<open>finally\<close> block has
  run.
\<close>

definition safe_excel_operation ::
  "library \<Rightarrow> operation \<Rightarrow> world \<Rightarrow> (signal + pyval) \<times> world" where
  "safe_excel_operation lib func w =
     (case session lib func w of
        (Inr result, w') \<Rightarrow> (Inr result, w')
      | (Inl (Error e), w') \<Rightarrow> (Inr (except_clauses e), w')
      | (Inl (Interrupt s), w') \<Rightarrow> (Inl (Interrupt s), w'))"

text \<open>The \<^verbatim>\<open>except\<close> clauses of \<^verbatim>\<open>backend_service.py\<close>: a dict with the same texts.\<close>

fun except_clauses_http :: "exn \<Rightarrow> pyval" where
  "except_clauses_http (FileNotFoundError e) =
     PDict [(''status'', PStr ''error''), (''message'', PStr (''Error: '' @ e))]"
| "except_clauses_http (OtherError e) =
     PDict [(''status'', PStr ''error''),
            (''message'', PStr (''An Excel error occurred: '' @ e))]"

text \<open>\<^verbatim>\<open>safe_excel_operation\<close> of \<^verbatim>\<open>backend_service.py\<close>: a dict with a status.\<close>

definition safe_excel_operation_http ::
  "library \<Rightarrow> operation \<Rightarrow> world \<Rightarrow> (signal + pyval) \<times> world" where
  "safe_excel_operation_http lib func w =
     (case session lib func w of
        (Inr result, w') \<Rightarrow>
          (Inr (PDict [(''status'', PStr ''success''), (''result'', result)]), w')
      | (Inl (Error e), w') \<Rightarrow> (Inr (except_clauses_http e), w')
      | (Inl (Interrupt s), w') \<Rightarrow> (Inl (Interrupt s), w'))"

section \<open>The tools\<close>

text \<open>
  The inner functions are the same in \<^verbatim>\<open>excel_agnet.py\<close> and \<^verbatim>\<open>backend_service.py\<close>.
  Each catches every exception of its body and returns a text. The membership test
  \<^verbatim>\<open>sheet_name not in [s.name for s in book.sheets]\<close> and the lookup
  \<^verbatim>\<open>book.sheets[sheet_name]\<close> that follows it are one \<open>find_sheet\<close>.
\<close>

definition sheet_not_found :: "string \<Rightarrow> string" where
  "sheet_not_found sheet_name = ''Error: Sheet '' @ [CHR 0x27] @ sheet_name @ [CHR 0x27] @ '' not found.''"

text \<open>The texts of the \<^verbatim>\<open>except Exception as e\<close> branches, \<open>e\<close> the text of the exception.\<close>

definition error_reading_cell :: "string \<Rightarrow> string \<Rightarrow> string \<Rightarrow> string" where
  "error_reading_cell cell_address sheet_name e =
     ''Error reading cell '' @ cell_address @ '' on sheet '' @ sheet_name @ '': '' @ e"

definition error_writing_cell :: "string \<Rightarrow> string \<Rightarrow> string \<Rightarrow> string" where
  "error_writing_cell cell_address sheet_name e =
     ''Error writing to cell '' @ cell_address @ '' on sheet '' @ sheet_name @ '': '' @ e"

definition error_reading_range :: "string \<Rightarrow> string \<Rightarrow> string \<Rightarrow> string" where
  "error_reading_range range_address sheet_name e =
     ''Error reading range '' @ range_address @ '' on sheet '' @ sheet_name @ '': '' @ e"

definition error_writing_range :: "string \<Rightarrow> string \<Rightarrow> string \<Rightarrow> string" where
  "error_writing_range start_cell_address sheet_name e =
     ''An Excel error occurred during write range to '' @ start_cell_address
       @ '' on '' @ sheet_name @ '': '' @ e"

definition error_clearing_range :: "string \<Rightarrow> string \<Rightarrow> string \<Rightarrow> string" where
  "error_clearing_range range_address sheet_name e =
     ''Error clearing range '' @ range_address @ '' on sheet '' @ sheet_name @ '': '' @ e"

definition read_cell :: "library \<Rightarrow> string \<Rightarrow> string \<Rightarrow> operation" where
  "read_cell lib sheet_name cell_address book =
     (let failed = error_reading_cell cell_address sheet_name in
      case sheets_fault lib of
        Some e \<Rightarrow> (Inr (PStr (failed e)), book, [])
      | None \<Rightarrow>
          (case find_sheet book sheet_name of
             None \<Rightarrow> (Inr (PStr (sheet_not_found sheet_name)), book, [])
           | Some sheet \<Rightarrow>
               (case resolve lib cell_address of
                  Inl e \<Rightarrow> (Inr (PStr (failed e)), book, [RangeRead sheet_name cell_address])
                | Inr r \<Rightarrow>
                    (let v = range_value (cells sheet) r in
                     (Inr (PStr (if v \<noteq> PNone then py_str v else [])), book,
                      [RangeRead sheet_name cell_address])))))"

definition write_cell :: "library \<Rightarrow> string \<Rightarrow> string \<Rightarrow> string \<Rightarrow> operation" where
  "write_cell lib sheet_name cell_address v book =
     (let failed = error_writing_cell cell_address sheet_name in
      case sheets_fault lib of
        Some e \<Rightarrow> (Inr (PStr (failed e)), book, [])
      | None \<Rightarrow>
          (case find_sheet book sheet_name of
             None \<Rightarrow> (Inr (PStr (sheet_not_found sheet_name)), book, [])
           | Some sheet \<Rightarrow>
               (case resolve lib cell_address of
                  Inl e \<Rightarrow>
                    (Inr (PStr (failed e)), book, [RangeWrite sheet_name cell_address (PStr v)])
                | Inr r \<Rightarrow>
                    (Inr (PStr (''Successfully wrote '' @ [CHR 0x27] @ v @ [CHR 0x27] @ '' to cell ''
                                @ cell_address @ '' on sheet '' @ sheet_name @ ''.'')),
                     put_sheet book sheet_name (fill_range lib r (PStr v) (cells sheet)),
                     [RangeWrite sheet_name cell_address (PStr v)]))))"

definition read_range :: "library \<Rightarrow> string \<Rightarrow> string \<Rightarrow> operation" where
  "read_range lib sheet_name range_address book =
     (let failed = error_reading_range range_address sheet_name in
      case sheets_fault lib of
        Some e \<Rightarrow> (Inr (PStr (failed e)), book, [])
      | None \<Rightarrow>
          (case find_sheet book sheet_name of
             None \<Rightarrow> (Inr (PStr (sheet_not_found sheet_name)), book, [])
           | Some sheet \<Rightarrow>
               (case resolve lib range_address of
                  Inl e \<Rightarrow> (Inr (PStr (failed e)), book, [RangeRead sheet_name range_address])
                | Inr r \<Rightarrow>
                    (Inr (PStr (py_str (range_value (cells sheet) r))), book,
                     [RangeRead sheet_name range_address]))))"

definition not_json_message :: string where
  "not_json_message =
     ''Error: The '' @ [CHR 0x27] @ ''values_json'' @ [CHR 0x27]
       @ '' argument is not a valid JSON string.''"

definition not_list_of_lists_message :: string where
  "not_list_of_lists_message =
     ''Error: The '' @ [CHR 0x27] @ ''values_json'' @ [CHR 0x27]
       @ '' argument must be a valid JSON string representing a list of lists.''"

definition write_range :: "library \<Rightarrow> string \<Rightarrow> string \<Rightarrow> string \<Rightarrow> operation" where
  "write_range lib sheet_name start_cell_address values_json book =
     (let failed = error_writing_range start_cell_address sheet_name in
      case json_loads lib values_json of
        JSONDecodeError \<Rightarrow> (Inr (PStr not_json_message), book, [])
      | LoadError e \<Rightarrow> (Inr (PStr (failed e)), book, [])
      | Loaded data \<Rightarrow>
          if \<not> is_list data \<or> \<not> list_all is_list (unlist data)
          then (Inr (PStr not_list_of_lists_message), book, [])
          else
            (case sheets_fault lib of
               Some e \<Rightarrow> (Inr (PStr (failed e)), book, [])
             | None \<Rightarrow>
                 (case find_sheet book sheet_name of
                    None \<Rightarrow> (Inr (PStr (sheet_not_found sheet_name)), book, [])
                  | Some sheet \<Rightarrow>
                      (case resolve lib start_cell_address of
                         Inl e \<Rightarrow>
                           (Inr (PStr (failed e)), book,
                            [RangeWrite sheet_name start_cell_address data])
                       | Inr r \<Rightarrow>
                           (case range_set_rows lib r (unlist data) (cells sheet) of
                              (Some e, g) \<Rightarrow>
                                (Inr (PStr (failed e)), put_sheet book sheet_name g,
                                 [RangeWrite sheet_name start_cell_address data])
                            | (None, g) \<Rightarrow>
                                (Inr (PStr (''Successfully wrote data starting at cell ''
                                            @ start_cell_address @ '' on sheet '' @ sheet_name @ ''.'')),
                                 put_sheet book sheet_name g,
                                 [RangeWrite sheet_name start_cell_address data]))))))"

definition get_sheet_names_inner :: "library \<Rightarrow> operation" where
  "get_sheet_names_inner lib book =
     (case sheets_fault lib of
        Some e \<Rightarrow> (Inr (PStr (''Error getting sheet names: '' @ e)), book, [])
      | None \<Rightarrow>
          (let sheet_names = map name book in
           (Inr (PStr (if sheet_names \<noteq> [] then py_join '', '' sheet_names
                       else ''No sheets found.'')), book, [])))"

definition clear_range :: "library \<Rightarrow> string \<Rightarrow> string \<Rightarrow> operation" where
  "clear_range lib sheet_name range_address book =
     (let failed = error_clearing_range range_address sheet_name in
      case sheets_fault lib of
        Some e \<Rightarrow> (Inr (PStr (failed e)), book, [])
      | None \<Rightarrow>
          (case find_sheet book sheet_name of
             None \<Rightarrow> (Inr (PStr (sheet_not_found sheet_name)), book, [])
           | Some sheet \<Rightarrow>
               (case resolve lib range_address of
                  Inl e \<Rightarrow> (Inr (PStr (failed e)), book, [RangeClear sheet_name range_address])
                | Inr r \<Rightarrow>
                    (Inr (PStr (''Successfully cleared content from range '' @ range_address
                                @ '' on sheet '' @ sheet_name @ ''.'')),
                     put_sheet book sheet_name (clear_contents r (cells sheet)),
                     [RangeClear sheet_name range_address]))))"

text \<open>The tools of \<^verbatim>\<open>excel_agnet.py\<close>.\<close>

definition read_cell_value :: "library \<Rightarrow> string \<Rightarrow> string \<Rightarrow> world \<Rightarrow> (signal + pyval) \<times> world" where
  "read_cell_value lib sheet_name cell_address =
     safe_excel_operation lib (read_cell lib sheet_name cell_address)"

definition write_cell_value :: "library \<Rightarrow> string \<Rightarrow> string \<Rightarrow> string \<Rightarrow> world \<Rightarrow> (signal + pyval) \<times> world" where
  "write_cell_value lib sheet_name cell_address v =
     safe_excel_operation lib (write_cell lib sheet_name cell_address v)"

definition read_range_values :: "library \<Rightarrow> string \<Rightarrow> string \<Rightarrow> world \<Rightarrow> (signal + pyval) \<times> world" where
  "read_range_values lib sheet_name range_address =
     safe_excel_operation lib (read_range lib sheet_name range_address)"

definition write_range_values :: "library \<Rightarrow> string \<Rightarrow> string \<Rightarrow> string \<Rightarrow> world \<Rightarrow> (signal + pyval) \<times> world" where
  "write_range_values lib sheet_name start_cell_address values_json =
     safe_excel_operation lib (write_range lib sheet_name start_cell_address values_json)"

definition get_sheet_names :: "library \<Rightarrow> world \<Rightarrow> (signal + pyval) \<times> world" where
  "get_sheet_names lib = safe_excel_operation lib (get_sheet_names_inner lib)"

definition clear_range_content :: "library \<Rightarrow> string \<Rightarrow> string \<Rightarrow> world \<Rightarrow> (signal + pyval) \<times> world" where
  "clear_range_content lib sheet_name range_address =
     safe_excel_operation lib (clear_range lib sheet_name range_address)"

text \<open>The tools of \<^verbatim>\<open>backend_service.py\<close> that the properties below are about.\<close>

definition read_cell_value_http :: "library \<Rightarrow> string \<Rightarrow> string \<Rightarrow> world \<Rightarrow> (signal + pyval) \<times> world" where
  "read_cell_value_http lib sheet_name cell_address =
     safe_excel_operation_http lib (read_cell lib sheet_name cell_address)"

definition get_sheet_names_http :: "library \<Rightarrow> world \<Rightarrow> (signal + pyval) \<times> world" where
  "get_sheet_names_http lib = safe_excel_operation_http lib (get_sheet_names_inner lib)"

section \<open>The instruction generators and the endpoint of the delegated variant\<close>

text \<open>\<^verbatim>\<open>d.get(key)\<close> on a dict; \<open>None\<close> also when the value is not a dict.\<close>

fun dict_get :: "pyval \<Rightarrow> string \<Rightarrow> pyval option" where
  "dict_get (PDict kvs) k = map_of kvs k"
| "dict_get _ k = None"

definition generate_read_cell_instruction :: "string \<Rightarrow> string \<Rightarrow> string \<Rightarrow> pyval" where
  "generate_read_cell_instruction workbook_name sheet_name cell_address =
     PDict [(''action'', PStr ''read_cell''),
            (''workbook_name'', PStr workbook_name),
            (''sheet_name'', PStr sheet_name),
            (''cell_address'', PStr cell_address)]"

definition generate_write_cell_instruction :: "string \<Rightarrow> string \<Rightarrow> string \<Rightarrow> string \<Rightarrow> pyval" where
  "generate_write_cell_instruction workbook_name sheet_name cell_address v =
     PDict [(''action'', PStr ''write_cell''),
            (''workbook_name'', PStr workbook_name),
            (''sheet_name'', PStr sheet_name),
            (''cell_address'', PStr cell_address),
            (''value'', PStr v)]"

definition generate_read_range_instruction :: "string \<Rightarrow> string \<Rightarrow> string \<Rightarrow> pyval" where
  "generate_read_range_instruction workbook_name sheet_name range_address =
     PDict [(''action'', PStr ''read_range''),
            (''workbook_name'', PStr workbook_name),
            (''sheet_name'', PStr sheet_name),
            (''range_address'', PStr range_address)]"

text \<open>
  The generator of range writes catches \<^verbatim>\<open>JSONDecodeError\<close> only: another exception
  of \<^verbatim>\<open>json.loads\<close> leaves it, and no descriptor is returned.
\<close>

definition generate_write_range_instruction ::
  "library \<Rightarrow> string \<Rightarrow> string \<Rightarrow> string \<Rightarrow> string \<Rightarrow> string + pyval" where
  "generate_write_range_instruction lib workbook_name sheet_name start_cell_address values_json =
     (case json_loads lib values_json of
        JSONDecodeError \<Rightarrow>
          Inr (PDict [(''action'', PStr ''error''),
                      (''message'', PStr ''Error: The provided data for writing range is not a valid JSON string.'')])
      | LoadError e \<Rightarrow> Inl e
      | Loaded data \<Rightarrow>
          if \<not> is_list data \<or> \<not> list_all is_list (unlist data)
          then Inr (PDict [(''action'', PStr ''error''),
                           (''message'', PStr ''Error: The provided data for writing range is not a valid JSON list of lists.'')])
          else Inr (PDict [(''action'', PStr ''write_range''),
                           (''workbook_name'', PStr workbook_name),
                           (''sheet_name'', PStr sheet_name),
                           (''start_cell_address'', PStr start_cell_address),
                           (''values'', data)]))"

definition generate_get_sheet_names_instruction :: "string \<Rightarrow> pyval" where
  "generate_get_sheet_names_instruction workbook_name =
     PDict [(''action'', PStr ''get_sheet_names''),
            (''workbook_name'', PStr workbook_name)]"

definition generate_clear_range_content_instruction :: "string \<Rightarrow> string \<Rightarrow> string \<Rightarrow> pyval" where
  "generate_clear_range_content_instruction workbook_name sheet_name range_address =
     PDict [(''action'', PStr ''clear_range_content''),
            (''workbook_name'', PStr workbook_name),
            (''sheet_name'', PStr sheet_name),
            (''range_address'', PStr range_address)]"

definition generate_inform_user_instruction :: "string \<Rightarrow> pyval" where
  "generate_inform_user_instruction message =
     PDict [(''action'', PStr ''inform_user''),
            (''message'', PStr message)]"

definition generate_create_bar_chart_instruction ::
  "string \<Rightarrow> string \<Rightarrow> string \<Rightarrow> string \<Rightarrow> string \<Rightarrow> pyval" where
  "generate_create_bar_chart_instruction workbook_name sheet_name data_range chart_title
       destination_cell =
     PDict [(''action'', PStr ''create_bar_chart''),
            (''workbook_name'', PStr workbook_name),
            (''sheet_name'', PStr sheet_name),
            (''data_range'', PStr data_range),
            (''chart_title'', PStr chart_title),
            (''destination_cell'', PStr destination_cell)]"

definition generate_write_formula_instruction :: "string \<Rightarrow> string \<Rightarrow> string \<Rightarrow> string \<Rightarrow> pyval" where
  "generate_write_formula_instruction workbook_name sheet_name cell_address formula =
     PDict [(''action'', PStr ''write_formula''),
            (''workbook_name'', PStr workbook_name),
            (''sheet_name'', PStr sheet_name),
            (''cell_address'', PStr cell_address),
            (''formula'', PStr formula)]"

definition generate_apply_conditional_formatting_instruction ::
  "string \<Rightarrow> string \<Rightarrow> string \<Rightarrow> string \<Rightarrow> string \<Rightarrow> pyval" where
  "generate_apply_conditional_formatting_instruction workbook_name sheet_name range_address
       condition format_type =
     PDict [(''action'', PStr ''apply_conditional_formatting''),
            (''workbook_name'', PStr workbook_name),
            (''sheet_name'', PStr sheet_name),
            (''range_address'', PStr range_address),
            (''condition'', PStr condition),
            (''format_type'', PStr format_type)]"

definition generate_create_pivot_table_instruction ::
  "string \<Rightarrow> string \<Rightarrow> string \<Rightarrow> string \<Rightarrow> string \<Rightarrow> string \<Rightarrow> string \<Rightarrow> string \<Rightarrow> pyval" where
  "generate_create_pivot_table_instruction workbook_name source_sheet source_range dest_sheet
       dest_cell row_field value_field func =
     PDict [(''action'', PStr ''create_pivot_table''),
            (''workbook_name'', PStr workbook_name),
            (''source_sheet'', PStr source_sheet),
            (''source_range'', PStr source_range),
            (''dest_sheet'', PStr dest_sheet),
            (''dest_cell'', PStr dest_cell),
            (''row_field'', PStr row_field),
            (''value_field'', PStr value_field),
            (''function'', PStr func)]"

text \<open>
  One entry of \<^verbatim>\<open>response_obj.sources\<close>: its \<^verbatim>\<open>raw_output\<close> attribute and its
  \<^verbatim>\<open>metadata\<close> dict, each \<open>None\<close> when the attribute is missing. The reply of the agent
  is the sources and the text \<^verbatim>\<open>response_obj.response\<close> (empty when there is none).
\<close>

record source =
  raw_output :: "pyval option"
  metadata :: "(string \<times> pyval) list option"

record agent_chat_response =
  sources :: "source list"
  response :: string

text \<open>
  The value \<^verbatim>\<open>tool_output_result\<close> has after the \<^verbatim>\<open>if\<close>/\<^verbatim>\<open>elif\<close> of the loop body,
  \<open>PNone\<close> when neither place gave one.
\<close>

definition tool_output_result :: "source \<Rightarrow> pyval" where
  "tool_output_result src =
     (if raw_output src \<noteq> None \<and> raw_output src \<noteq> Some PNone then the (raw_output src)
      else
        (case metadata src of
           None \<Rightarrow> PNone
         | Some md \<Rightarrow>
             (if md \<noteq> [] \<and> map_of md ''tool_output'' \<noteq> None
              then the (map_of md ''tool_output'')
              else PNone)))"

text \<open>
  The loop over the sources, from the value \<^verbatim>\<open>extracted_tool_output\<close> has so far: a dict
  replaces it, and the loop breaks at the first dict whose action is not
  \<^verbatim>\<open>inform_user\<close>.
\<close>

fun scan_sources :: "pyval option \<Rightarrow> source list \<Rightarrow> pyval option" where
  "scan_sources extracted [] = extracted"
| "scan_sources extracted (src # rest) =
     (let t = tool_output_result src in
      if is_dict t
      then (if dict_get t ''action'' \<noteq> Some (PStr ''inform_user'') then Some t
            else scan_sources (Some t) rest)
      else scan_sources extracted rest)"

text \<open>The truth value of \<^verbatim>\<open>extracted_tool_output\<close>: not \<^verbatim>\<open>None\<close> and not an empty dict.\<close>

fun truthy :: "pyval option \<Rightarrow> bool" where
  "truthy None = False"
| "truthy (Some (PDict kvs)) = (kvs \<noteq> [])"
| "truthy (Some v) = True"

datatype 'a http = Reply 'a | HTTPException nat string

text \<open>
  \<^verbatim>\<open>handle_excel_command\<close> of \<^verbatim>\<open>backend_service_llamaindex.py.py\<close>, from what
  \<^verbatim>\<open>agent.achat\<close> gave: the text of the exception it raised, or its reply.
\<close>

definition handle_excel_command :: "string + agent_chat_response \<Rightarrow> pyval http" where
  "handle_excel_command outcome =
     (case outcome of
        Inl e \<Rightarrow> HTTPException 500 (''Backend processing error: '' @ e)
      | Inr response_obj \<Rightarrow>
          (let extracted_tool_output = scan_sources None (sources response_obj);
               instruction =
                 (if truthy extracted_tool_output then the extracted_tool_output
                  else if response response_obj \<noteq> []
                  then PDict [(''action'', PStr ''inform_user''),
                              (''message'', PStr (response response_obj))]
                  else PDict [(''action'', PStr ''error''),
                              (''message'', PStr ''Backend failed to generate a valid instruction.'')])
           in Reply
                (if \<not> is_dict instruction
                 then PDict [(''action'', PStr ''error''),
                             (''message'',
                              PStr (''Backend returned unexpected final format after extraction: ''
                                    @ py_str instruction))]
                 else instruction)))"

text \<open>
  The action descriptors of section 6 of the specification, as written there: each
  action tag with the fields that follow \<^verbatim>\<open>action\<close>, in order.
\<close>

definition wire_contract :: "(string \<times> string list) list" where
  "wire_contract =
     [(''read_cell'', [''workbook_name'', ''sheet_name'', ''cell_address'']),
      (''write_cell'', [''workbook_name'', ''sheet_name'', ''cell_address'', ''value'']),
      (''read_range'', [''workbook_name'', ''sheet_name'', ''range_address'']),
      (''write_range'', [''workbook_name'', ''sheet_name'', ''start_cell_address'', ''values'']),
      (''get_sheet_names'', [''workbook_name'']),
      (''clear_range_content'', [''workbook_name'', ''sheet_name'', ''range_address'']),
      (''create_bar_chart'',
         [''workbook_name'', ''sheet_name'', ''data_range'', ''chart_title'', ''destination_cell'']),
      (''write_formula'', [''workbook_name'', ''sheet_name'', ''cell_address'', ''formula'']),
      (''apply_conditional_formatting'',
         [''workbook_name'', ''sheet_name'', ''range_address'', ''condition'', ''format_type'']),
      (''create_pivot_table'',
         [''workbook_name'', ''source_sheet'', ''source_range'', ''dest_sheet'', ''dest_cell'',
          ''row_field'', ''value_field'', ''function'']),
      (''inform_user'', [''message'']),
      (''error'', [''message''])]"

text \<open>
  The descriptor section 6 of the specification gives for an action tag and the values
  of its fields, taken in the order of the table: \<^verbatim>\<open>action\<close> first, then each field
  with its value.
\<close>

definition descriptor :: "string \<Rightarrow> pyval list \<Rightarrow> pyval option" where
  "descriptor tag vs =
     (case map_of wire_contract tag of
        None \<Rightarrow> None
      | Some names \<Rightarrow>
          if length names = length vs
          then Some (PDict ((''action'', PStr tag) # zip names vs))
          else None)"

section \<open>A library instance for concrete runs\<close>

text \<open>
  A reader for a fragment of JSON, used where a run needs a concrete \<open>json_loads\<close>. It
  reads what \<^verbatim>\<open>json.loads\<close> reads as long as numbers are integer literals, strings
  have no \<^verbatim>\<open>\u\<close> escape and the constants \<^verbatim>\<open>NaN\<close> and \<^verbatim>\<open>Infinity\<close> do not occur; it
  gives \<open>None\<close> on every other text. The general theorems below do not depend on it.
\<close>

datatype token = TOpenList | TCloseList | TOpenDict | TCloseDict | TComma | TColon | TValue pyval

datatype mode = Between | InString string | InEscape string | InNumber string | InWord string

definition is_ws :: "char \<Rightarrow> bool" where
  "is_ws c = (c = CHR '' '' \<or> c = CHR 0x09 \<or> c = CHR 0x0A \<or> c = CHR 0x0D)"

definition is_digit :: "char \<Rightarrow> bool" where
  "is_digit c = (48 \<le> (of_char c :: nat) \<and> (of_char c :: nat) \<le> 57)"

definition is_letter :: "char \<Rightarrow> bool" where
  "is_letter c =
     (let n = (of_char c :: nat) in (97 \<le> n \<and> n \<le> 122) \<or> (65 \<le> n \<and> n \<le> 90))"

definition unescape :: "char \<Rightarrow> char option" where
  "unescape c =
     (if c = CHR 0x22 \<or> c = CHR 0x5C \<or> c = CHR ''/'' then Some c
      else if c = CHR ''b'' then Some (CHR 0x08)
      else if c = CHR ''f'' then Some (CHR 0x0C)
      else if c = CHR ''n'' then Some (CHR 0x0A)
      else if c = CHR ''r'' then Some (CHR 0x0D)
      else if c = CHR ''t'' then Some (CHR 0x09)
      else None)"

text \<open>An integer literal: an optional minus sign, then \<^verbatim>\<open>0\<close> or digits not starting with \<^verbatim>\<open>0\<close>.\<close>

definition number_token :: "string \<Rightarrow> token option" where
  "number_token lit =
     (let digits = (if lit \<noteq> [] \<and> hd lit = CHR ''-'' then tl lit else lit) in
      if digits = [] \<or> \<not> list_all is_digit digits \<or> (hd digits = CHR ''0'' \<and> tl digits \<noteq> [])
      then None
      else Some (TValue (PNum (if digits = ''0'' then ''0'' else lit))))"

definition word_token :: "string \<Rightarrow> token option" where
  "word_token w =
     (if w = ''true'' then Some (TValue (PBool True))
      else if w = ''false'' then Some (TValue (PBool False))
      else if w = ''null'' then Some (TValue PNone)
      else None)"

text \<open>
  The text is read one character at a time: the state is what is being read and the
  tokens read so far. A character that ends a number or a word is then read again as
  the start of what follows.
\<close>

datatype lexing = Lexing mode "token list" | Unreadable

definition between :: "char \<Rightarrow> token list \<Rightarrow> lexing" where
  "between c ts =
     (if is_ws c then Lexing Between ts
      else if c = CHR ''['' then Lexing Between (ts @ [TOpenList])
      else if c = CHR '']'' then Lexing Between (ts @ [TCloseList])
      else if c = CHR ''{'' then Lexing Between (ts @ [TOpenDict])
      else if c = CHR ''}'' then Lexing Between (ts @ [TCloseDict])
      else if c = CHR '','' then Lexing Between (ts @ [TComma])
      else if c = CHR '':'' then Lexing Between (ts @ [TColon])
      else if c = CHR 0x22 then Lexing (InString []) ts
      else if c = CHR ''-'' \<or> is_digit c then Lexing (InNumber [c]) ts
      else if is_letter c then Lexing (InWord [c]) ts
      else Unreadable)"

fun scan :: "char \<Rightarrow> lexing \<Rightarrow> lexing" where
  "scan c Unreadable = Unreadable"
| "scan c (Lexing Between ts) = between c ts"
| "scan c (Lexing (InString acc) ts) =
     (if c = CHR 0x22 then Lexing Between (ts @ [TValue (PStr acc)])
      else if c = CHR 0x5C then Lexing (InEscape acc) ts
      else if (of_char c :: nat) < 32 then Unreadable
      else Lexing (InString (acc @ [c])) ts)"
| "scan c (Lexing (InEscape acc) ts) =
     (case unescape c of None \<Rightarrow> Unreadable | Some e \<Rightarrow> Lexing (InString (acc @ [e])) ts)"
| "scan c (Lexing (InNumber acc) ts) =
     (if is_digit c then Lexing (InNumber (acc @ [c])) ts
      else if is_letter c \<or> c = CHR ''.'' \<or> c = CHR ''-'' \<or> c = CHR ''+'' then Unreadable
      else (case number_token acc of None \<Rightarrow> Unreadable | Some t \<Rightarrow> between c (ts @ [t])))"
| "scan c (Lexing (InWord acc) ts) =
     (if is_letter c then Lexing (InWord (acc @ [c])) ts
      else (case word_token acc of None \<Rightarrow> Unreadable | Some t \<Rightarrow> between c (ts @ [t])))"

fun tokens_at_end :: "lexing \<Rightarrow> token list option" where
  "tokens_at_end (Lexing Between ts) = Some ts"
| "tokens_at_end (Lexing (InNumber acc) ts) = map_option (\<lambda>t. ts @ [t]) (number_token acc)"
| "tokens_at_end (Lexing (InWord acc) ts) = map_option (\<lambda>t. ts @ [t]) (word_token acc)"
| "tokens_at_end _ = None"

definition tokens :: "string \<Rightarrow> token list option" where
  "tokens text = tokens_at_end (fold scan text (Lexing Between []))"

text \<open>
  The tokens are folded through a stack of the lists and dicts that are open. A dict
  under construction holds the key that waits for its value; a repeated key keeps its
  place and takes the later value.
\<close>

datatype frame = InList "pyval list" | InDict "(string \<times> pyval) list" "string option"

datatype phase = Value | ValueOrClose | KeyOrClose | Key | Colon | Separator

datatype pstate = Reading "frame list" phase | Finished pyval | Rejected

fun dict_set :: "(string \<times> pyval) list \<Rightarrow> string \<Rightarrow> pyval \<Rightarrow> (string \<times> pyval) list" where
  "dict_set [] k v = [(k, v)]"
| "dict_set ((k', v') # kvs) k v =
     (if k' = k then (k, v) # kvs else (k', v') # dict_set kvs k v)"

fun deliver :: "pyval \<Rightarrow> frame list \<Rightarrow> pstate" where
  "deliver v [] = Finished v"
| "deliver v (InList acc # st) = Reading (InList (acc @ [v]) # st) Separator"
| "deliver v (InDict kvs (Some k) # st) = Reading (InDict (dict_set kvs k v) None # st) Separator"
| "deliver v (InDict kvs None # st) = Rejected"

fun open_value :: "frame list \<Rightarrow> token \<Rightarrow> pstate" where
  "open_value st (TValue v) = deliver v st"
| "open_value st TOpenList = Reading (InList [] # st) ValueOrClose"
| "open_value st TOpenDict = Reading (InDict [] None # st) KeyOrClose"
| "open_value st _ = Rejected"

fun take_key :: "frame list \<Rightarrow> token \<Rightarrow> pstate" where
  "take_key (InDict kvs None # st) (TValue (PStr k)) = Reading (InDict kvs (Some k) # st) Colon"
| "take_key st t = Rejected"

fun close :: "frame list \<Rightarrow> token \<Rightarrow> pstate" where
  "close (InList acc # st) TCloseList = deliver (PList acc) st"
| "close (InDict kvs None # st) TCloseDict = deliver (PDict kvs) st"
| "close st t = Rejected"

fun step :: "token \<Rightarrow> pstate \<Rightarrow> pstate" where
  "step t (Reading st Value) = open_value st t"
| "step t (Reading st ValueOrClose) = (if t = TCloseList then close st t else open_value st t)"
| "step t (Reading st KeyOrClose) = (if t = TCloseDict then close st t else take_key st t)"
| "step t (Reading st Key) = take_key st t"
| "step t (Reading st Colon) = (if t = TColon then Reading st Value else Rejected)"
| "step t (Reading st Separator) =
     (if t = TComma
      then (case st of
              InList acc # _ \<Rightarrow> Reading st Value
            | InDict kvs None # _ \<Rightarrow> Reading st Key
            | _ \<Rightarrow> Rejected)
      else close st t)"
| "step t (Finished v) = Rejected"
| "step t Rejected = Rejected"

definition json_fragment :: "string \<Rightarrow> pyval option" where
  "json_fragment text =
     (case tokens text of
        None \<Rightarrow> None
      | Some ts \<Rightarrow> (case fold step ts (Reading [] Value) of Finished v \<Rightarrow> Some v | _ \<Rightarrow> None))"

text \<open>
  Addresses of the two forms \<^verbatim>\<open>A1\<close> and \<^verbatim>\<open>A1:B2\<close>: capital column letters, then a row
  number from 1, within 16384 columns and 1048576 rows.
\<close>

definition column_number :: "string \<Rightarrow> nat" where
  "column_number letters = fold (\<lambda>c n. 26 * n + (of_char c - 64)) letters 0"

definition row_number :: "string \<Rightarrow> nat" where
  "row_number digits = fold (\<lambda>c n. 10 * n + (of_char c - 48)) digits 0"

definition is_capital :: "char \<Rightarrow> bool" where
  "is_capital c = (65 \<le> (of_char c :: nat) \<and> (of_char c :: nat) \<le> 90)"

definition cell_ref :: "string \<Rightarrow> (nat \<times> nat) option" where
  "cell_ref a =
     (let letters = takeWhile is_capital a; digits = dropWhile is_capital a;
          r = row_number digits; c = column_number letters
      in if letters \<noteq> [] \<and> digits \<noteq> [] \<and> list_all is_digit digits
            \<and> 1 \<le> r \<and> r \<le> 1048576 \<and> c \<le> 16384
         then Some (r, c) else None)"

definition a1_resolve :: "string \<Rightarrow> string + rng" where
  "a1_resolve a =
     (let first = takeWhile (\<lambda>c. c \<noteq> CHR '':'') a; rest = dropWhile (\<lambda>c. c \<noteq> CHR '':'') a in
      case cell_ref first of
        None \<Rightarrow> Inl ''invalid address''
      | Some p \<Rightarrow>
          (if rest = [] then Inr (p, p)
           else (case cell_ref (tl rest) of
                   None \<Rightarrow> Inl ''invalid address''
                 | Some q \<Rightarrow>
                     Inr ((min (fst p) (fst q), min (snd p) (snd q)),
                          (max (fst p) (fst q), max (snd p) (snd q))))))"

text \<open>
  The instance: the JSON fragment, the addresses above, every scalar kept in the cell as
  it was given, an irregular table refused with an exception that leaves the grid as it
  was, and no fault.
\<close>

definition plain_library :: library where
  "plain_library =
     \<lparr>json_loads = (\<lambda>text. case json_fragment text of None \<Rightarrow> JSONDecodeError
                                | Some v \<Rightarrow> Loaded v),
      resolve = a1_resolve,
      enter = (\<lambda>v. v),
      irregular_write = (\<lambda>r data g. (Some ''irregular data'', g)),
      app_fault = None, open_fault = None, sheets_fault = None,
      save_fault = None, close_fault = None\<rparr>"

definition blank :: grid where
  "blank = (\<lambda>p. PNone)"

definition one_sheet :: workbook where
  "one_sheet = [\<lparr>name = ''Sheet1'', cells = blank\<rparr>]"

definition two_sheets :: workbook where
  "two_sheets = [\<lparr>name = ''Sheet2'', cells = blank\<rparr>, \<lparr>name = ''Sheet1'', cells = blank\<rparr>]"

definition at_rest :: "workbook option \<Rightarrow> world" where
  "at_rest doc = \<lparr>stored = doc, live_apps = 0, open_books = 0, calls = []\<rparr>"

text \<open>An operation that raises after it has changed the open document.\<close>

definition failing_midway :: operation where
  "failing_midway book =
     (Inl (Error (OtherError ''fault'')),
      put_sheet book ''Sheet1'' (\<lambda>p. PStr ''x''),
      [RangeWrite ''Sheet1'' ''A1'' (PStr ''x'')])"

text \<open>
  The same instance, except that \<open>json_loads\<close> ends in \<^verbatim>\<open>RecursionError\<close> on a text
  that starts by opening more than 1000 lists.
\<close>

definition nesting_limited_library :: library where
  "nesting_limited_library =
     plain_library
       \<lparr>json_loads :=
          (\<lambda>text. if 1000 < length (takeWhile (\<lambda>c. c = CHR ''['') text)
                  then LoadError ''maximum recursion depth exceeded''
                  else json_loads plain_library text)\<rparr>"

text \<open>An operation that ends in an exception that is not of class \<^verbatim>\<open>Exception\<close>.\<close>

definition interrupted :: operation where
  "interrupted book = (Inl (Interrupt ''KeyboardInterrupt''), book, [])"

section \<open>Properties of the session guard\<close>

lemma release_stored [simp]: "stored (release lib b w) = stored w"
  by (simp add: release_def split: option.split)

lemma release_live_apps [simp]: "live_apps (release lib b w) = live_apps w"
  by (simp add: release_def split: option.split)

lemma release_calls:
  "calls (release lib b w) = (if b then calls w @ [BookClose] else calls w)"
  by (simp add: release_def split: option.split)

lemma release_open_books:
  "open_books (release lib b w) =
     (if b \<and> close_fault lib = None then open_books w - 1 else open_books w)"
  by (simp add: release_def split: option.split)

text \<open>What leaves the \<^verbatim>\<open>try\<close> body, path by path.\<close>

lemma fst_session:
  "fst (session lib func w) =
     (case app_fault lib of
        Some e \<Rightarrow> Inl (Error e)
      | None \<Rightarrow>
          (case stored w of
             None \<Rightarrow> Inl (Error (FileNotFoundError (''Excel file not found: '' @ EXCEL_FILE_PATH)))
           | Some book \<Rightarrow>
               (case open_fault lib of
                  Some e \<Rightarrow> Inl (Error e)
                | None \<Rightarrow>
                    (case fst (func book) of
                       Inl s \<Rightarrow> Inl s
                     | Inr result \<Rightarrow>
                         (case save_fault lib of
                            Some e \<Rightarrow> Inl (Error e)
                          | None \<Rightarrow> Inr result)))))"
  by (simp add: session_def Let_def split: option.split prod.split sum.split)

lemma fst_safe_excel_operation:
  "fst (safe_excel_operation lib func w) =
     (case fst (session lib func w) of
        Inr result \<Rightarrow> Inr result
      | Inl (Error e) \<Rightarrow> Inr (except_clauses e)
      | Inl (Interrupt s) \<Rightarrow> Inl (Interrupt s))"
  by (simp add: safe_excel_operation_def split: prod.split sum.split signal.split)

lemma fst_safe_excel_operation_http:
  "fst (safe_excel_operation_http lib func w) =
     (case fst (session lib func w) of
        Inr result \<Rightarrow> Inr (PDict [(''status'', PStr ''success''), (''result'', result)])
      | Inl (Error e) \<Rightarrow> Inr (except_clauses_http e)
      | Inl (Interrupt s) \<Rightarrow> Inl (Interrupt s))"
  by (simp add: safe_excel_operation_http_def split: prod.split sum.split signal.split)

lemma snd_safe_excel_operation:
  "snd (safe_excel_operation lib func w) = snd (session lib func w)"
  by (simp add: safe_excel_operation_def split: prod.split sum.split signal.split)

lemma snd_safe_excel_operation_http:
  "snd (safe_excel_operation_http lib func w) = snd (session lib func w)"
  by (simp add: safe_excel_operation_http_def split: prod.split sum.split signal.split)

text \<open>The run in which nothing fails and the operation returns.\<close>

lemma session_returns:
  assumes "app_fault lib = None" "open_fault lib = None" "save_fault lib = None"
    and "stored w = Some book" "func book = (Inr result, book', cs)"
  shows "session lib func w =
           (Inr result,
            release lib True
              (w\<lparr>live_apps := Suc (live_apps w), open_books := Suc (open_books w),
                 stored := Some book',
                 calls := calls w @ [AppStart, BooksOpen] @ cs @ [BookSave]\<rparr>))"
  using assms by (simp add: session_def Let_def)

text \<open>
  A run with an operation that returns without touching the document or the library:
  the stored document stays as it was and the only calls are those of the guard.
\<close>

lemma session_untouched:
  assumes "\<And>book. func book = (Inr result, book, [])"
  shows "stored (snd (session lib func w)) = stored w"
    and "\<exists>cs. calls (snd (session lib func w)) = calls w @ cs
              \<and> set cs \<subseteq> {AppStart, BooksOpen, BookSave, BookClose}"
    and "app_fault lib = None \<Longrightarrow> stored w \<noteq> None \<Longrightarrow> open_fault lib = None \<Longrightarrow>
         calls (snd (session lib func w)) = calls w @ [AppStart, BooksOpen, BookSave, BookClose]"
    and "app_fault lib = None \<Longrightarrow> stored w \<noteq> None \<Longrightarrow> open_fault lib = None \<Longrightarrow>
         fst (session lib func w) =
           (case save_fault lib of None \<Rightarrow> Inr result | Some e \<Rightarrow> Inl (Error e))"
proof -
  show "stored (snd (session lib func w)) = stored w"
    by (auto simp: session_def Let_def assms split: option.split)
  show "\<exists>cs. calls (snd (session lib func w)) = calls w @ cs
              \<and> set cs \<subseteq> {AppStart, BooksOpen, BookSave, BookClose}"
    by (auto simp: session_def Let_def assms release_calls split: option.split)
  show "app_fault lib = None \<Longrightarrow> stored w \<noteq> None \<Longrightarrow> open_fault lib = None \<Longrightarrow>
         calls (snd (session lib func w)) = calls w @ [AppStart, BooksOpen, BookSave, BookClose]"
    by (auto simp: session_def Let_def assms release_calls split: option.split)
  show "app_fault lib = None \<Longrightarrow> stored w \<noteq> None \<Longrightarrow> open_fault lib = None \<Longrightarrow>
         fst (session lib func w) =
           (case save_fault lib of None \<Rightarrow> Inr result | Some e \<Rightarrow> Inl (Error e))"
    by (auto simp: fst_session assms split: option.split)
qed

section \<open>Listing the sheets\<close>

lemma get_sheet_names_inner_result:
  "sheets_fault lib = None \<Longrightarrow>
   get_sheet_names_inner lib book =
     (Inr (PStr (if book = [] then ''No sheets found.'' else py_join '', '' (map name book))),
      book, [])"
  by (simp add: get_sheet_names_inner_def)

text \<open>
  Claim C7. When the document opens and nothing fails, the tool that lists the sheets
  returns their names in the order the workbook holds them, joined by a comma and a
  space, and for a workbook without sheets the text \<^verbatim>\<open>No sheets found.\<close>; in
  \<^verbatim>\<open>backend_service.py\<close> the same text is the result of a success reply. The names are
  not sorted: the witness lists \<^verbatim>\<open>Sheet2\<close> before \<^verbatim>\<open>Sheet1\<close>.
\<close>

theorem list_sheets_in_workbook_order:
  assumes "app_fault lib = None" "open_fault lib = None" "sheets_fault lib = None"
    and "save_fault lib = None" "stored w = Some book"
  shows "fst (get_sheet_names lib w) =
           Inr (PStr (if book = [] then ''No sheets found.''
                      else py_join '', '' (map name book)))
       \<and> fst (get_sheet_names_http lib w) =
           Inr (PDict [(''status'', PStr ''success''),
                       (''result'',
                        PStr (if book = [] then ''No sheets found.''
                              else py_join '', '' (map name book)))])"
  using assms
  by (simp add: get_sheet_names_def get_sheet_names_http_def safe_excel_operation_def
      safe_excel_operation_http_def
      session_returns [OF _ _ _ _ get_sheet_names_inner_result])

theorem list_sheets_in_workbook_order_witness:
  "fst (get_sheet_names plain_library (at_rest (Some two_sheets))) =
     Inr (PStr ''Sheet2, Sheet1'')
   \<and> fst (get_sheet_names plain_library (at_rest (Some []))) = Inr (PStr ''No sheets found.'')"
  using list_sheets_in_workbook_order [of plain_library "at_rest (Some two_sheets)" two_sheets]
    list_sheets_in_workbook_order [of plain_library "at_rest (Some [])" "[]"]
  by (simp add: plain_library_def at_rest_def two_sheets_def)

section \<open>Reading one cell\<close>

lemma read_cell_blank:
  assumes "sheets_fault lib = None" "find_sheet book sheet_name = Some sheet"
    and "resolve lib cell_address = Inr ((r, c), (r, c))" "cells sheet (r, c) = PNone"
  shows "read_cell lib sheet_name cell_address book =
           (Inr (PStr []), book, [RangeRead sheet_name cell_address])"
  using assms by (simp add: read_cell_def range_value_def Let_def)

text \<open>
  Claim C9. When the document opens and nothing fails, reading a single cell that is
  empty on a sheet of the workbook returns the empty text, not \<^verbatim>\<open>None\<close>: as the result
  of the tool in \<^verbatim>\<open>excel_agnet.py\<close>, and as the result field of a success reply in
  \<^verbatim>\<open>backend_service.py\<close>.
\<close>

theorem read_cell_empty_is_empty_text:
  assumes "app_fault lib = None" "open_fault lib = None" "sheets_fault lib = None"
    and "save_fault lib = None" "stored w = Some book"
    and "find_sheet book sheet_name = Some sheet"
    and "resolve lib cell_address = Inr ((r, c), (r, c))" "cells sheet (r, c) = PNone"
  shows "fst (read_cell_value lib sheet_name cell_address w) = Inr (PStr [])
       \<and> fst (read_cell_value_http lib sheet_name cell_address w) =
           Inr (PDict [(''status'', PStr ''success''), (''result'', PStr [])])"
  using assms
  by (simp add: read_cell_value_def read_cell_value_http_def safe_excel_operation_def
      safe_excel_operation_http_def
      session_returns [OF _ _ _ _ read_cell_blank])

theorem read_cell_empty_is_empty_text_witness:
  "fst (read_cell_value plain_library ''Sheet1'' ''B2'' (at_rest (Some one_sheet))) =
     Inr (PStr [])
   \<and> fst (read_cell_value_http plain_library ''Sheet1'' ''B2'' (at_rest (Some one_sheet))) =
       Inr (PDict [(''status'', PStr ''success''), (''result'', PStr [])])"
proof -
  have r: "resolve plain_library ''B2'' = Inr ((2, 2), (2, 2))"
    by (simp add: plain_library_def a1_resolve_def cell_ref_def is_capital_def is_digit_def
        row_number_def column_number_def Let_def)
  have f: "find_sheet one_sheet ''Sheet1'' = Some \<lparr>name = ''Sheet1'', cells = blank\<rparr>"
    by (simp add: find_sheet_def one_sheet_def)
  show ?thesis
    using read_cell_empty_is_empty_text
      [of plain_library "at_rest (Some one_sheet)" one_sheet "''Sheet1''"
        "\<lparr>name = ''Sheet1'', cells = blank\<rparr>" "''B2''" 2 2, OF _ _ _ _ _ f r]
    by (simp add: plain_library_def at_rest_def blank_def)
qed

section \<open>What the session guard returns\<close>

text \<open>
  Claim C10, as the code has it. \<^verbatim>\<open>safe_excel_operation\<close> ends in one of three ways.
  It returns the result of the operation (in \<^verbatim>\<open>backend_service.py\<close> in a dict with
  status \<^verbatim>\<open>success\<close>): exactly when the application starts, the file exists, the
  document opens, the operation returns that result and the save succeeds. It returns
  an error (a text \<^verbatim>\<open>Error: ...\<close> or \<^verbatim>\<open>An Excel error occurred: ...\<close>, in
  \<^verbatim>\<open>backend_service.py\<close> as the message of a dict with status \<^verbatim>\<open>error\<close>): no
  exception of class \<^verbatim>\<open>Exception\<close> leaves it, whatever fails. Or an exception leaves
  it: exactly when the document was opened and the operation raised an exception that
  is not of class \<^verbatim>\<open>Exception\<close>, which no \<^verbatim>\<open>except\<close> clause names. The library
  calls are taken to fail with exceptions of class \<^verbatim>\<open>Exception\<close> only, and the
  \<^verbatim>\<open>print\<close> calls of the handlers to return.
\<close>

theorem safe_excel_operation_outcomes:
  "((\<exists>result.
       fst (safe_excel_operation_http lib func w) =
         Inr (PDict [(''status'', PStr ''success''), (''result'', result)])
       \<and> fst (safe_excel_operation lib func w) = Inr result)
    \<or> (\<exists>message.
         fst (safe_excel_operation_http lib func w) =
           Inr (PDict [(''status'', PStr ''error''), (''message'', PStr message)])
         \<and> fst (safe_excel_operation lib func w) = Inr (PStr message)
         \<and> (\<exists>e. message = ''Error: '' @ e \<or> message = ''An Excel error occurred: '' @ e))
    \<or> (\<exists>s. fst (safe_excel_operation_http lib func w) = Inl (Interrupt s)
         \<and> fst (safe_excel_operation lib func w) = Inl (Interrupt s)))
   \<and> (fst (safe_excel_operation_http lib func w) =
          Inr (PDict [(''status'', PStr ''success''), (''result'', r)])
        \<longleftrightarrow> app_fault lib = None \<and> open_fault lib = None \<and> save_fault lib = None
             \<and> (\<exists>book. stored w = Some book \<and> fst (func book) = Inr r))
   \<and> (fst (safe_excel_operation_http lib func w) = Inl x
        \<longleftrightarrow> app_fault lib = None \<and> open_fault lib = None
             \<and> (\<exists>book s. stored w = Some book \<and> fst (func book) = Inl (Interrupt s)
                   \<and> x = Interrupt s))
   \<and> (fst (safe_excel_operation lib func w) = Inl x
        \<longleftrightarrow> fst (safe_excel_operation_http lib func w) = Inl x)"
proof -
  have shape: "\<And>e. \<exists>m. except_clauses_http e =
                  PDict [(''status'', PStr ''error''), (''message'', PStr m)]
                \<and> except_clauses e = PStr m
                \<and> (\<exists>t. m = ''Error: '' @ t \<or> m = ''An Excel error occurred: '' @ t)"
    subgoal for e by (cases e) auto
    done
  have one: "(\<exists>result.
       fst (safe_excel_operation_http lib func w) =
         Inr (PDict [(''status'', PStr ''success''), (''result'', result)])
       \<and> fst (safe_excel_operation lib func w) = Inr result)
    \<or> (\<exists>message.
         fst (safe_excel_operation_http lib func w) =
           Inr (PDict [(''status'', PStr ''error''), (''message'', PStr message)])
         \<and> fst (safe_excel_operation lib func w) = Inr (PStr message)
         \<and> (\<exists>e. message = ''Error: '' @ e \<or> message = ''An Excel error occurred: '' @ e))
    \<or> (\<exists>s. fst (safe_excel_operation_http lib func w) = Inl (Interrupt s)
         \<and> fst (safe_excel_operation lib func w) = Inl (Interrupt s))"
  proof (cases "fst (session lib func w)")
    case (Inr result)
    then show ?thesis
      by (simp add: fst_safe_excel_operation fst_safe_excel_operation_http)
  next
    case (Inl sg)
    show ?thesis
    proof (cases sg)
      case (Error e)
      with Inl shape [of e] show ?thesis
        by (simp add: fst_safe_excel_operation fst_safe_excel_operation_http)
    next
      case (Interrupt s)
      with Inl show ?thesis
        by (simp add: fst_safe_excel_operation fst_safe_excel_operation_http)
    qed
  qed
  have err: "\<And>e v. except_clauses_http e \<noteq> PDict [(''status'', PStr ''success''), (''result'', v)]"
    subgoal for e v by (cases e) auto
    done
  have two: "fst (safe_excel_operation_http lib func w) =
          Inr (PDict [(''status'', PStr ''success''), (''result'', r)])
        \<longleftrightarrow> app_fault lib = None \<and> open_fault lib = None \<and> save_fault lib = None
             \<and> (\<exists>book. stored w = Some book \<and> fst (func book) = Inr r)"
    by (auto simp: fst_safe_excel_operation_http fst_session err
        split: option.split sum.split signal.split)
  have three: "fst (safe_excel_operation_http lib func w) = Inl x
        \<longleftrightarrow> app_fault lib = None \<and> open_fault lib = None
             \<and> (\<exists>book s. stored w = Some book \<and> fst (func book) = Inl (Interrupt s)
                   \<and> x = Interrupt s)"
    by (auto simp: fst_safe_excel_operation_http fst_session
        split: option.split sum.split signal.split)
  have four: "fst (safe_excel_operation lib func w) = Inl x
        \<longleftrightarrow> fst (safe_excel_operation_http lib func w) = Inl x"
    by (auto simp: fst_safe_excel_operation_http fst_safe_excel_operation
        split: option.split sum.split signal.split)
  from one two three four show ?thesis by blast
qed

theorem safe_excel_operation_outcomes_witness:
  "fst (safe_excel_operation_http plain_library (get_sheet_names_inner plain_library)
          (at_rest (Some one_sheet))) =
     Inr (PDict [(''status'', PStr ''success''), (''result'', PStr ''Sheet1'')])
   \<and> fst (safe_excel_operation plain_library failing_midway (at_rest (Some one_sheet))) \<noteq>
       Inl (Error (OtherError ''fault''))"
  using safe_excel_operation_outcomes
    [where lib = plain_library and func = "get_sheet_names_inner plain_library"
       and w = "at_rest (Some one_sheet)" and r = "PStr ''Sheet1''"]
    safe_excel_operation_outcomes
    [where lib = plain_library and func = failing_midway
       and w = "at_rest (Some one_sheet)" and x = "Error (OtherError ''fault'')"]
  by (simp add: plain_library_def at_rest_def get_sheet_names_inner_def one_sheet_def
      failing_midway_def)

text \<open>
  The claim as written fails: an operation that is interrupted (\<^verbatim>\<open>KeyboardInterrupt\<close>
  is not of class \<^verbatim>\<open>Exception\<close>) ends \<^verbatim>\<open>safe_excel_operation\<close> in that exception, in
  both files, and no dict is returned.
\<close>

theorem interrupt_leaves_the_guard_counterexample:
  "fst (safe_excel_operation plain_library interrupted (at_rest (Some one_sheet))) =
     Inl (Interrupt ''KeyboardInterrupt'')
   \<and> fst (safe_excel_operation_http plain_library interrupted (at_rest (Some one_sheet))) =
       Inl (Interrupt ''KeyboardInterrupt'')"
  by (simp add: safe_excel_operation_def safe_excel_operation_http_def session_def
      release_def interrupted_def plain_library_def at_rest_def Let_def)

section \<open>What the session guard releases\<close>

lemma session_live_apps:
  "live_apps (snd (session lib func w)) =
     live_apps w + (if app_fault lib = None then 1 else 0)"
  by (simp add: session_def Let_def split: option.split prod.split sum.split)

lemma session_open_books:
  "open_books (snd (session lib func w)) =
     open_books w
       + (if app_fault lib = None \<and> stored w \<noteq> None \<and> open_fault lib = None
             \<and> close_fault lib \<noteq> None then 1 else 0)"
  by (auto simp: session_def Let_def release_open_books split: option.split prod.split sum.split)

lemma session_last_call:
  "app_fault lib = None \<Longrightarrow> stored w \<noteq> None \<Longrightarrow> open_fault lib = None \<Longrightarrow>
   last (calls (snd (session lib func w))) = BookClose"
  by (auto simp: session_def Let_def release_calls split: option.split prod.split sum.split)

text \<open>
  Claim C2, as the code has it. On every exit path of \<^verbatim>\<open>safe_excel_operation\<close>, in both
  files, the document is closed when it was opened: the close is the last call made,
  also when the operation raised or the save failed, and no document stays open unless
  the close itself fails (its exception is printed and dropped). When no document was
  opened (the application did not start, the file is missing, the open failed) there is
  nothing to close. The application is never released: every call that started one
  leaves it running, since \<^verbatim>\<open>app.quit()\<close> is commented out.
\<close>

theorem session_guard_closes_document_keeps_application:
  assumes "w' = snd (safe_excel_operation lib func w)
         \<or> w' = snd (safe_excel_operation_http lib func w)"
  shows "live_apps w' = live_apps w + (if app_fault lib = None then 1 else 0)
       \<and> open_books w' =
           open_books w
             + (if app_fault lib = None \<and> stored w \<noteq> None \<and> open_fault lib = None
                   \<and> close_fault lib \<noteq> None then 1 else 0)
       \<and> (app_fault lib = None \<and> stored w \<noteq> None \<and> open_fault lib = None
            \<longrightarrow> last (calls w') = BookClose)"
  using assms session_live_apps [of lib func w] session_open_books [of lib func w]
    session_last_call [of lib w func]
  by (auto simp: snd_safe_excel_operation snd_safe_excel_operation_http)

theorem session_guard_closes_document_keeps_application_witness:
  "last (calls (snd (safe_excel_operation plain_library failing_midway (at_rest (Some one_sheet)))))
     = BookClose
   \<and> open_books (snd (safe_excel_operation plain_library failing_midway (at_rest (Some one_sheet))))
     = 0
   \<and> live_apps (snd (safe_excel_operation plain_library failing_midway (at_rest (Some one_sheet))))
     = 1"
  using session_guard_closes_document_keeps_application
    [of "snd (safe_excel_operation plain_library failing_midway (at_rest (Some one_sheet)))"
      plain_library failing_midway "at_rest (Some one_sheet)"]
  by (simp add: plain_library_def at_rest_def)

text \<open>
  The claim as written fails: after a call that succeeds on a machine with no
  application running, one application is running, and no call quit it.
\<close>

theorem application_not_released_counterexample:
  "live_apps (at_rest (Some one_sheet)) = 0
   \<and> live_apps (snd (safe_excel_operation plain_library (get_sheet_names_inner plain_library)
        (at_rest (Some one_sheet)))) = 1
   \<and> AppQuit \<notin> set (calls (snd (safe_excel_operation plain_library
        (get_sheet_names_inner plain_library) (at_rest (Some one_sheet)))))"
  by (simp add: safe_excel_operation_def session_def release_def get_sheet_names_inner_def
      plain_library_def at_rest_def one_sheet_def Let_def)

section \<open>Range writes with a payload that is refused\<close>

lemma not_valid_json: "json_fragment ''not valid json'' = None"
  by (simp add: json_fragment_def tokens_def between_def is_ws_def is_digit_def is_letter_def
      word_token_def)

lemma write_range_not_json:
  "json_loads lib values_json = JSONDecodeError \<Longrightarrow>
   write_range lib sheet_name start_cell_address values_json book =
     (Inr (PStr not_json_message), book, [])"
  by (simp add: write_range_def)

lemma write_range_load_error:
  "json_loads lib values_json = LoadError e \<Longrightarrow>
   write_range lib sheet_name start_cell_address values_json book =
     (Inr (PStr (error_writing_range start_cell_address sheet_name e)), book, [])"
  by (simp add: write_range_def)

lemma write_range_not_list_of_lists:
  "json_loads lib values_json = Loaded data \<Longrightarrow>
   \<not> (is_list data \<and> list_all is_list (unlist data)) \<Longrightarrow>
   write_range lib sheet_name start_cell_address values_json book =
     (Inr (PStr not_list_of_lists_message), book, [])"
  by (auto simp: write_range_def)

text \<open>
  A range write whose operation returns a text without touching the document: what the
  tool leaves and returns.
\<close>

lemma refused_write:
  assumes "\<And>book. write_range lib sheet_name start_cell_address values_json book =
             (Inr (PStr m), book, [])"
    and "w' = snd (write_range_values lib sheet_name start_cell_address values_json w)"
  shows "stored w' = stored w
       \<and> (\<exists>cs. calls w' = calls w @ cs \<and> set cs \<subseteq> {AppStart, BooksOpen, BookSave, BookClose})
       \<and> (app_fault lib = None \<and> stored w \<noteq> None \<and> open_fault lib = None \<longrightarrow>
            calls w' = calls w @ [AppStart, BooksOpen, BookSave, BookClose]
            \<and> fst (write_range_values lib sheet_name start_cell_address values_json w) =
                Inr (case save_fault lib of
                       Some x \<Rightarrow> except_clauses x
                     | None \<Rightarrow> PStr m))"
proof -
  let ?f = "write_range lib sheet_name start_cell_address values_json"
  have w': "w' = snd (session lib ?f w)"
    using assms(2) by (simp add: write_range_values_def snd_safe_excel_operation)
  have r: "fst (write_range_values lib sheet_name start_cell_address values_json w) =
             (case fst (session lib ?f w) of
                Inr result \<Rightarrow> Inr result
              | Inl (Error e) \<Rightarrow> Inr (except_clauses e)
              | Inl (Interrupt s) \<Rightarrow> Inl (Interrupt s))"
    by (simp add: write_range_values_def fst_safe_excel_operation)
  note u = session_untouched [where func = ?f and result = "PStr m" and lib = lib and w = w,
      OF assms(1)]
  have a: "stored w' = stored w" using u(1) w' by simp
  have b: "\<exists>cs. calls w' = calls w @ cs \<and> set cs \<subseteq> {AppStart, BooksOpen, BookSave, BookClose}"
    using u(2) w' by simp
  have c: "app_fault lib = None \<and> stored w \<noteq> None \<and> open_fault lib = None \<longrightarrow>
            calls w' = calls w @ [AppStart, BooksOpen, BookSave, BookClose]
            \<and> fst (write_range_values lib sheet_name start_cell_address values_json w) =
                Inr (case save_fault lib of
                       Some x \<Rightarrow> except_clauses x
                     | None \<Rightarrow> PStr m)"
  proof
    assume h: "app_fault lib = None \<and> stored w \<noteq> None \<and> open_fault lib = None"
    then have "calls w' = calls w @ [AppStart, BooksOpen, BookSave, BookClose]"
      using u(3) w' by simp
    moreover have "fst (session lib ?f w) =
        (case save_fault lib of None \<Rightarrow> Inr (PStr m) | Some e \<Rightarrow> Inl (Error e))"
      using u(4) h by simp
    then have "fst (write_range_values lib sheet_name start_cell_address values_json w) =
                Inr (case save_fault lib of
                       Some x \<Rightarrow> except_clauses x
                     | None \<Rightarrow> PStr m)"
      by (simp add: r split: option.split)
    ultimately show "calls w' = calls w @ [AppStart, BooksOpen, BookSave, BookClose]
            \<and> fst (write_range_values lib sheet_name start_cell_address values_json w) =
                Inr (case save_fault lib of
                       Some x \<Rightarrow> except_clauses x
                     | None \<Rightarrow> PStr m)"
      by simp
  qed
  from a b c show ?thesis by simp
qed

text \<open>
  Claim C1, as the code has it. Take a range write on whose payload \<^verbatim>\<open>json.loads\<close>
  raises: \<^verbatim>\<open>JSONDecodeError\<close>, as for the text \<^verbatim>\<open>not valid json\<close>, or another
  exception with text \<open>e\<close>, as \<^verbatim>\<open>RecursionError\<close> for a text that opens too many lists.
  In every environment no cell is written: the stored document is as it was, and the
  only calls made are among start, open, save and close. When the application starts,
  the file exists and the document opens, the calls are exactly these four, in this
  order: the payload is parsed inside the operation, after the document has been opened,
  and the document is then saved and closed. The tool then returns the text of a failed
  save if the save fails, and otherwise the text that the argument is not a valid JSON
  string, for \<^verbatim>\<open>JSONDecodeError\<close>, or the text of the \<^verbatim>\<open>except Exception\<close> branch
  with \<open>e\<close>. The generator of the delegated variant, which opens no document, returns an
  error descriptor for \<^verbatim>\<open>JSONDecodeError\<close> and lets any other exception pass.
\<close>

theorem write_range_rejects_non_json:
  assumes "json_loads lib values_json = JSONDecodeError
         \<or> json_loads lib values_json = LoadError e"
    and "w' = snd (write_range_values lib sheet_name start_cell_address values_json w)"
  shows "stored w' = stored w
       \<and> (\<exists>cs. calls w' = calls w @ cs \<and> set cs \<subseteq> {AppStart, BooksOpen, BookSave, BookClose})
       \<and> (app_fault lib = None \<and> stored w \<noteq> None \<and> open_fault lib = None \<longrightarrow>
            calls w' = calls w @ [AppStart, BooksOpen, BookSave, BookClose]
            \<and> fst (write_range_values lib sheet_name start_cell_address values_json w) =
                Inr (case save_fault lib of
                       Some x \<Rightarrow> except_clauses x
                     | None \<Rightarrow>
                         PStr (if json_loads lib values_json = JSONDecodeError
                               then not_json_message
                               else error_writing_range start_cell_address sheet_name e)))
       \<and> generate_write_range_instruction lib workbook_name sheet_name start_cell_address
             values_json =
           (if json_loads lib values_json = JSONDecodeError
            then Inr (PDict [(''action'', PStr ''error''),
                             (''message'',
                              PStr ''Error: The provided data for writing range is not a valid JSON string.'')])
            else Inl e)"
  using assms(1)
proof
  assume j: "json_loads lib values_json = JSONDecodeError"
  from refused_write [OF write_range_not_json [OF j] assms(2)] j
  show ?thesis by (simp add: generate_write_range_instruction_def)
next
  assume j: "json_loads lib values_json = LoadError e"
  from refused_write [OF write_range_load_error [OF j] assms(2)] j
  show ?thesis by (simp add: generate_write_range_instruction_def)
qed

theorem write_range_rejects_non_json_witness:
  "fst (write_range_values plain_library ''Sheet1'' ''A1'' ''not valid json''
          (at_rest (Some one_sheet))) = Inr (PStr not_json_message)
   \<and> stored (snd (write_range_values plain_library ''Sheet1'' ''A1'' ''not valid json''
          (at_rest (Some one_sheet)))) = Some one_sheet
   \<and> calls (snd (write_range_values plain_library ''Sheet1'' ''A1'' ''not valid json''
          (at_rest (Some one_sheet)))) = [AppStart, BooksOpen, BookSave, BookClose]
   \<and> fst (write_range_values nesting_limited_library ''Sheet1'' ''A1''
          (replicate 1001 (CHR ''['')) (at_rest (Some one_sheet))) =
       Inr (PStr (error_writing_range ''A1'' ''Sheet1'' ''maximum recursion depth exceeded''))
   \<and> generate_write_range_instruction nesting_limited_library ''Book1'' ''Sheet1'' ''A1''
          (replicate 1001 (CHR ''['')) = Inl ''maximum recursion depth exceeded''"
proof -
  have j: "json_loads plain_library ''not valid json'' = JSONDecodeError
         \<or> json_loads plain_library ''not valid json'' = LoadError []"
    by (simp add: plain_library_def not_valid_json)
  have d: "json_loads nesting_limited_library (replicate 1001 (CHR ''['')) = JSONDecodeError
         \<or> json_loads nesting_limited_library (replicate 1001 (CHR ''['')) =
             LoadError ''maximum recursion depth exceeded''"
    by (simp add: nesting_limited_library_def takeWhile_replicate)
  have d': "json_loads nesting_limited_library (replicate 1001 (CHR ''['')) \<noteq> JSONDecodeError"
    by (simp add: nesting_limited_library_def takeWhile_replicate)
  have s: "save_fault plain_library = None" "app_fault plain_library = None"
    "open_fault plain_library = None" "save_fault nesting_limited_library = None"
    "app_fault nesting_limited_library = None" "open_fault nesting_limited_library = None"
    by (simp_all add: plain_library_def nesting_limited_library_def)
  have p: "json_loads plain_library ''not valid json'' = JSONDecodeError"
    by (simp add: plain_library_def not_valid_json)
  show ?thesis
    using write_range_rejects_non_json
        [OF j refl, where w = "at_rest (Some one_sheet)" and sheet_name = "''Sheet1''"
           and start_cell_address = "''A1''"]
      write_range_rejects_non_json
        [OF d refl, where w = "at_rest (Some one_sheet)" and sheet_name = "''Sheet1''"
           and start_cell_address = "''A1''" and workbook_name = "''Book1''"]
    by (simp add: s p d' at_rest_def)
qed

text \<open>
  The claim as written fails: for the payload \<^verbatim>\<open>not valid json\<close> the document is opened
  and saved.
\<close>

theorem document_opened_before_validation_counterexample:
  "json_fragment ''not valid json'' = None
   \<and> BooksOpen \<in> set (calls (snd (write_range_values plain_library ''Sheet1'' ''A1''
        ''not valid json'' (at_rest (Some one_sheet)))))
   \<and> BookSave \<in> set (calls (snd (write_range_values plain_library ''Sheet1'' ''A1''
        ''not valid json'' (at_rest (Some one_sheet)))))"
  by (simp add: not_valid_json write_range_values_def safe_excel_operation_def session_def
      release_def write_range_def plain_library_def at_rest_def one_sheet_def Let_def)

lemma ragged_json:
  \<open>json_fragment ''[["a"],["b","c"]]'' =
     Some (PList [PList [PStr ''a''], PList [PStr ''b'', PStr ''c'']])\<close>
  by code_simp

lemma flat_json: \<open>json_fragment ''["a","b"]'' = Some (PList [PStr ''a'', PStr ''b''])\<close>
  by code_simp

text \<open>
  Claim C6, as the code has it. Take a range write whose payload \<^verbatim>\<open>json.loads\<close> reads
  as a value that is not a list whose elements are all lists. In every environment no
  cell is written: the stored document is as it was, and the only calls made are among
  start, open, save and close. When the application starts, the file exists and the
  document opens, the calls are exactly these four, and the tool returns the text of a
  failed save if the save fails and otherwise the text that asks for a list of lists.
  The generator of the delegated variant returns an error descriptor. Nothing checks
  that the rows have one length.
\<close>

theorem write_range_rejects_non_lists:
  assumes "json_loads lib values_json = Loaded data"
    and "\<not> (is_list data \<and> list_all is_list (unlist data))"
    and "w' = snd (write_range_values lib sheet_name start_cell_address values_json w)"
  shows "stored w' = stored w
       \<and> (\<exists>cs. calls w' = calls w @ cs \<and> set cs \<subseteq> {AppStart, BooksOpen, BookSave, BookClose})
       \<and> (app_fault lib = None \<and> stored w \<noteq> None \<and> open_fault lib = None \<longrightarrow>
            calls w' = calls w @ [AppStart, BooksOpen, BookSave, BookClose]
            \<and> fst (write_range_values lib sheet_name start_cell_address values_json w) =
                Inr (case save_fault lib of
                       Some x \<Rightarrow> except_clauses x
                     | None \<Rightarrow> PStr not_list_of_lists_message))
       \<and> generate_write_range_instruction lib workbook_name sheet_name start_cell_address
             values_json =
           Inr (PDict [(''action'', PStr ''error''),
                       (''message'',
                        PStr ''Error: The provided data for writing range is not a valid JSON list of lists.'')])"
proof -
  have g: "generate_write_range_instruction lib workbook_name sheet_name start_cell_address
             values_json =
           Inr (PDict [(''action'', PStr ''error''),
                       (''message'',
                        PStr ''Error: The provided data for writing range is not a valid JSON list of lists.'')])"
    using assms(1,2) by (auto simp: generate_write_range_instruction_def)
  from refused_write [OF write_range_not_list_of_lists [OF assms(1,2)] assms(3)] g
  show ?thesis by simp
qed

theorem write_range_rejects_non_lists_witness:
  \<open>fst (write_range_values plain_library ''Sheet1'' ''A1'' ''["a","b"]''
          (at_rest (Some one_sheet))) = Inr (PStr not_list_of_lists_message)
   \<and> stored (snd (write_range_values plain_library ''Sheet1'' ''A1'' ''["a","b"]''
          (at_rest (Some one_sheet)))) = Some one_sheet
   \<and> calls (snd (write_range_values plain_library ''Sheet1'' ''A1'' ''["a","b"]''
          (at_rest (Some one_sheet)))) = [AppStart, BooksOpen, BookSave, BookClose]\<close>
proof -
  have j: \<open>json_loads plain_library ''["a","b"]'' = Loaded (PList [PStr ''a'', PStr ''b''])\<close>
    by (simp add: plain_library_def flat_json)
  have n: "\<not> (is_list (PList [PStr ''a'', PStr ''b''])
              \<and> list_all is_list (unlist (PList [PStr ''a'', PStr ''b''])))"
    by simp
  have s: "save_fault plain_library = None" "app_fault plain_library = None"
    "open_fault plain_library = None"
    by (simp_all add: plain_library_def)
  show ?thesis
    using write_range_rejects_non_lists
        [OF j n refl, where w = "at_rest (Some one_sheet)" and sheet_name = "''Sheet1''"
           and start_cell_address = "''A1''"]
    by (simp add: s at_rest_def)
qed

text \<open>
  The claim as written fails for rows of unequal length: the payload
  \<^verbatim>\<open>[["a"],["b","c"]]\<close> passes the check, the assignment to the range is reached with
  it, and the delegated variant returns a \<^verbatim>\<open>write_range\<close> descriptor that carries it.
\<close>

theorem ragged_rows_reach_the_write_counterexample:
  \<open>json_fragment ''[["a"],["b","c"]]'' =
     Some (PList [PList [PStr ''a''], PList [PStr ''b'', PStr ''c'']])
   \<and> RangeWrite ''Sheet1'' ''A1'' (PList [PList [PStr ''a''], PList [PStr ''b'', PStr ''c'']])
       \<in> set (calls (snd (write_range_values plain_library ''Sheet1'' ''A1''
                 ''[["a"],["b","c"]]'' (at_rest (Some one_sheet)))))
   \<and> generate_write_range_instruction plain_library ''Book1'' ''Sheet1'' ''A1''
         ''[["a"],["b","c"]]'' =
       Inr (PDict [(''action'', PStr ''write_range''), (''workbook_name'', PStr ''Book1''),
              (''sheet_name'', PStr ''Sheet1''), (''start_cell_address'', PStr ''A1''),
              (''values'', PList [PList [PStr ''a''], PList [PStr ''b'', PStr ''c'']])])\<close>
proof -
  have r: "resolve plain_library ''A1'' = Inr ((1, 1), (1, 1))"
    by (simp add: plain_library_def a1_resolve_def cell_ref_def is_capital_def is_digit_def
        row_number_def column_number_def Let_def)
  have j: \<open>json_loads plain_library ''[["a"],["b","c"]]'' =
     Loaded (PList [PList [PStr ''a''], PList [PStr ''b'', PStr ''c'']])\<close>
    by (simp add: plain_library_def ragged_json)
  have f: "find_sheet one_sheet ''Sheet1'' = Some \<lparr>name = ''Sheet1'', cells = blank\<rparr>"
    by (simp add: find_sheet_def one_sheet_def)
  have s: "sheets_fault plain_library = None" "app_fault plain_library = None"
    "open_fault plain_library = None" "save_fault plain_library = None"
    "close_fault plain_library = None"
    by (simp_all add: plain_library_def)
  have i: "irregular_write plain_library = (\<lambda>r data g. (Some ''irregular data'', g))"
    by (simp add: plain_library_def)
  show ?thesis
    by (simp add: ragged_json write_range_values_def safe_excel_operation_def session_def
        release_def write_range_def range_set_rows_def table_def
        generate_write_range_instruction_def at_rest_def Let_def r j f s i)
qed

section \<open>A sheet that is not there, an address that is not one\<close>

lemma find_sheet_absent:
  "sheet_name \<notin> set (map name book) \<Longrightarrow> find_sheet book sheet_name = None"
  by (induction book) (auto simp: find_sheet_def)

lemma find_sheet_present:
  "sheet_name \<in> set (map name book) \<Longrightarrow> \<exists>sheet. find_sheet book sheet_name = Some sheet"
  by (induction book) (auto simp: find_sheet_def)

lemma absent_read_cell:
  "sheets_fault lib = None \<Longrightarrow> sheet_name \<notin> set (map name book) \<Longrightarrow>
   read_cell lib sheet_name a book = (Inr (PStr (sheet_not_found sheet_name)), book, [])"
  by (simp add: read_cell_def find_sheet_absent)

lemma absent_write_cell:
  "sheets_fault lib = None \<Longrightarrow> sheet_name \<notin> set (map name book) \<Longrightarrow>
   write_cell lib sheet_name a v book = (Inr (PStr (sheet_not_found sheet_name)), book, [])"
  by (simp add: write_cell_def find_sheet_absent)

lemma absent_read_range:
  "sheets_fault lib = None \<Longrightarrow> sheet_name \<notin> set (map name book) \<Longrightarrow>
   read_range lib sheet_name a book = (Inr (PStr (sheet_not_found sheet_name)), book, [])"
  by (simp add: read_range_def find_sheet_absent)

lemma absent_clear_range:
  "sheets_fault lib = None \<Longrightarrow> sheet_name \<notin> set (map name book) \<Longrightarrow>
   clear_range lib sheet_name a book = (Inr (PStr (sheet_not_found sheet_name)), book, [])"
  by (simp add: clear_range_def find_sheet_absent)

lemma absent_write_range:
  "sheets_fault lib = None \<Longrightarrow> sheet_name \<notin> set (map name book) \<Longrightarrow>
   json_loads lib values_json = Loaded data \<Longrightarrow> is_list data \<Longrightarrow>
   list_all is_list (unlist data) \<Longrightarrow>
   write_range lib sheet_name a values_json book =
     (Inr (PStr (sheet_not_found sheet_name)), book, [])"
  by (simp add: write_range_def find_sheet_absent)

lemma unresolved_read_cell:
  "sheets_fault lib = None \<Longrightarrow> find_sheet book sheet_name = Some sheet \<Longrightarrow>
   resolve lib a = Inl e \<Longrightarrow>
   read_cell lib sheet_name a book =
     (Inr (PStr (error_reading_cell a sheet_name e)), book, [RangeRead sheet_name a])"
  by (simp add: read_cell_def)

lemma unresolved_write_cell:
  "sheets_fault lib = None \<Longrightarrow> find_sheet book sheet_name = Some sheet \<Longrightarrow>
   resolve lib a = Inl e \<Longrightarrow>
   write_cell lib sheet_name a v book =
     (Inr (PStr (error_writing_cell a sheet_name e)), book, [RangeWrite sheet_name a (PStr v)])"
  by (simp add: write_cell_def)

lemma unresolved_read_range:
  "sheets_fault lib = None \<Longrightarrow> find_sheet book sheet_name = Some sheet \<Longrightarrow>
   resolve lib a = Inl e \<Longrightarrow>
   read_range lib sheet_name a book =
     (Inr (PStr (error_reading_range a sheet_name e)), book, [RangeRead sheet_name a])"
  by (simp add: read_range_def)

lemma unresolved_clear_range:
  "sheets_fault lib = None \<Longrightarrow> find_sheet book sheet_name = Some sheet \<Longrightarrow>
   resolve lib a = Inl e \<Longrightarrow>
   clear_range lib sheet_name a book =
     (Inr (PStr (error_clearing_range a sheet_name e)), book, [RangeClear sheet_name a])"
  by (simp add: clear_range_def)

lemma unresolved_write_range:
  "sheets_fault lib = None \<Longrightarrow> find_sheet book sheet_name = Some sheet \<Longrightarrow>
   resolve lib a = Inl e \<Longrightarrow>
   json_loads lib values_json = Loaded data \<Longrightarrow> is_list data \<Longrightarrow>
   list_all is_list (unlist data) \<Longrightarrow>
   write_range lib sheet_name a values_json book =
     (Inr (PStr (error_writing_range a sheet_name e)), book, [RangeWrite sheet_name a data])"
  by (simp add: write_range_def)

lemma sheet_not_found_distinct:
  "sheet_not_found s \<noteq> error_reading_cell a s' e"
  "sheet_not_found s \<noteq> error_writing_cell a s' e"
  "sheet_not_found s \<noteq> error_reading_range a s' e"
  "sheet_not_found s \<noteq> error_writing_range a s' e"
  "sheet_not_found s \<noteq> error_clearing_range a s' e"
  by (simp_all add: sheet_not_found_def error_reading_cell_def error_writing_cell_def
      error_reading_range_def error_writing_range_def error_clearing_range_def)

text \<open>
  Claim C4, as the code has it. Let the application start, the document open, its
  sheets be enumerated and the save succeed, and let the payload of the range write be
  one that \<^verbatim>\<open>json.loads\<close> reads as a list of lists. Then each of the five tools that
  name a sheet returns, for a sheet name the workbook does not hold, the text
  \<^verbatim>\<open>Error: Sheet '...' not found.\<close>, whatever the address is, valid or not; and for a
  sheet the workbook holds and an address that the library refuses with an exception of
  text \<open>e\<close>, the text of its own \<^verbatim>\<open>except\<close> branch, with the address, the sheet name
  and \<open>e\<close>. No text of the second kind is the text for a missing sheet, for any sheet
  name. (A range write whose payload is malformed reports the payload, not the sheet.)
\<close>

theorem absent_sheet_and_invalid_address_are_told_apart:
  assumes "app_fault lib = None" "open_fault lib = None" "sheets_fault lib = None"
    and "save_fault lib = None" "stored w = Some book"
    and "json_loads lib values_json = Loaded data" "is_list data" "list_all is_list (unlist data)"
  shows "(sheet_name \<notin> set (map name book) \<longrightarrow>
            fst (read_cell_value lib sheet_name address w) =
              Inr (PStr (sheet_not_found sheet_name))
          \<and> fst (write_cell_value lib sheet_name address v w) =
              Inr (PStr (sheet_not_found sheet_name))
          \<and> fst (read_range_values lib sheet_name address w) =
              Inr (PStr (sheet_not_found sheet_name))
          \<and> fst (write_range_values lib sheet_name address values_json w) =
              Inr (PStr (sheet_not_found sheet_name))
          \<and> fst (clear_range_content lib sheet_name address w) =
              Inr (PStr (sheet_not_found sheet_name)))
       \<and> (sheet_name \<in> set (map name book) \<and> resolve lib address = Inl e \<longrightarrow>
            fst (read_cell_value lib sheet_name address w) =
              Inr (PStr (error_reading_cell address sheet_name e))
          \<and> fst (write_cell_value lib sheet_name address v w) =
              Inr (PStr (error_writing_cell address sheet_name e))
          \<and> fst (read_range_values lib sheet_name address w) =
              Inr (PStr (error_reading_range address sheet_name e))
          \<and> fst (write_range_values lib sheet_name address values_json w) =
              Inr (PStr (error_writing_range address sheet_name e))
          \<and> fst (clear_range_content lib sheet_name address w) =
              Inr (PStr (error_clearing_range address sheet_name e)))
       \<and> sheet_not_found s \<noteq> error_reading_cell address sheet_name e
       \<and> sheet_not_found s \<noteq> error_writing_cell address sheet_name e
       \<and> sheet_not_found s \<noteq> error_reading_range address sheet_name e
       \<and> sheet_not_found s \<noteq> error_writing_range address sheet_name e
       \<and> sheet_not_found s \<noteq> error_clearing_range address sheet_name e"
proof -
  have absent: "sheet_name \<notin> set (map name book) \<longrightarrow>
            fst (read_cell_value lib sheet_name address w) =
              Inr (PStr (sheet_not_found sheet_name))
          \<and> fst (write_cell_value lib sheet_name address v w) =
              Inr (PStr (sheet_not_found sheet_name))
          \<and> fst (read_range_values lib sheet_name address w) =
              Inr (PStr (sheet_not_found sheet_name))
          \<and> fst (write_range_values lib sheet_name address values_json w) =
              Inr (PStr (sheet_not_found sheet_name))
          \<and> fst (clear_range_content lib sheet_name address w) =
              Inr (PStr (sheet_not_found sheet_name))"
    using assms
    by (simp add: read_cell_value_def write_cell_value_def read_range_values_def
        write_range_values_def clear_range_content_def safe_excel_operation_def
        session_returns [OF _ _ _ _ absent_read_cell]
        session_returns [OF _ _ _ _ absent_write_cell]
        session_returns [OF _ _ _ _ absent_read_range]
        session_returns [OF _ _ _ _ absent_clear_range]
        session_returns [OF _ _ _ _ absent_write_range])
  have present: "sheet_name \<in> set (map name book) \<and> resolve lib address = Inl e \<longrightarrow>
            fst (read_cell_value lib sheet_name address w) =
              Inr (PStr (error_reading_cell address sheet_name e))
          \<and> fst (write_cell_value lib sheet_name address v w) =
              Inr (PStr (error_writing_cell address sheet_name e))
          \<and> fst (read_range_values lib sheet_name address w) =
              Inr (PStr (error_reading_range address sheet_name e))
          \<and> fst (write_range_values lib sheet_name address values_json w) =
              Inr (PStr (error_writing_range address sheet_name e))
          \<and> fst (clear_range_content lib sheet_name address w) =
              Inr (PStr (error_clearing_range address sheet_name e))"
  proof
    assume h: "sheet_name \<in> set (map name book) \<and> resolve lib address = Inl e"
    then obtain sheet where f: "find_sheet book sheet_name = Some sheet"
      using find_sheet_present by blast
    from h have r: "resolve lib address = Inl e" by simp
    have 1: "fst (read_cell_value lib sheet_name address w) =
              Inr (PStr (error_reading_cell address sheet_name e))"
      using assms(1,2,4,5)
      by (simp add: read_cell_value_def safe_excel_operation_def
          session_returns [where func = "read_cell lib sheet_name address",
            OF _ _ _ _ unresolved_read_cell [OF assms(3) f r]])
    have 2: "fst (write_cell_value lib sheet_name address v w) =
              Inr (PStr (error_writing_cell address sheet_name e))"
      using assms(1,2,4,5)
      by (simp add: write_cell_value_def safe_excel_operation_def
          session_returns [where func = "write_cell lib sheet_name address v",
            OF _ _ _ _ unresolved_write_cell [OF assms(3) f r]])
    have 3: "fst (read_range_values lib sheet_name address w) =
              Inr (PStr (error_reading_range address sheet_name e))"
      using assms(1,2,4,5)
      by (simp add: read_range_values_def safe_excel_operation_def
          session_returns [where func = "read_range lib sheet_name address",
            OF _ _ _ _ unresolved_read_range [OF assms(3) f r]])
    have 4: "fst (write_range_values lib sheet_name address values_json w) =
              Inr (PStr (error_writing_range address sheet_name e))"
      using assms(1,2,4,5)
      by (simp add: write_range_values_def safe_excel_operation_def
          session_returns [where func = "write_range lib sheet_name address values_json",
            OF _ _ _ _ unresolved_write_range [OF assms(3) f r assms(6,7,8)]])
    have 5: "fst (clear_range_content lib sheet_name address w) =
              Inr (PStr (error_clearing_range address sheet_name e))"
      using assms(1,2,4,5)
      by (simp add: clear_range_content_def safe_excel_operation_def
          session_returns [where func = "clear_range lib sheet_name address",
            OF _ _ _ _ unresolved_clear_range [OF assms(3) f r]])
    from 1 2 3 4 5 show "fst (read_cell_value lib sheet_name address w) =
              Inr (PStr (error_reading_cell address sheet_name e))
          \<and> fst (write_cell_value lib sheet_name address v w) =
              Inr (PStr (error_writing_cell address sheet_name e))
          \<and> fst (read_range_values lib sheet_name address w) =
              Inr (PStr (error_reading_range address sheet_name e))
          \<and> fst (write_range_values lib sheet_name address values_json w) =
              Inr (PStr (error_writing_range address sheet_name e))
          \<and> fst (clear_range_content lib sheet_name address w) =
              Inr (PStr (error_clearing_range address sheet_name e))"
      by simp
  qed
  from absent present show ?thesis
    by (simp add: sheet_not_found_distinct)
qed

lemma table_json:
  \<open>json_fragment ''[["a","b"],["c","d"]]'' =
     Some (PList [PList [PStr ''a'', PStr ''b''], PList [PStr ''c'', PStr ''d'']])\<close>
  by code_simp

lemma not_an_address: "a1_resolve ''not an address'' = Inl ''invalid address''"
  by (simp add: a1_resolve_def cell_ref_def is_capital_def Let_def)

theorem absent_sheet_and_invalid_address_are_told_apart_witness:
  \<open>fst (read_cell_value plain_library ''Sheet9'' ''not an address'' (at_rest (Some one_sheet)))
     = Inr (PStr (sheet_not_found ''Sheet9''))
   \<and> fst (write_range_values plain_library ''Sheet9'' ''not an address''
        ''[["a","b"],["c","d"]]'' (at_rest (Some one_sheet)))
     = Inr (PStr (sheet_not_found ''Sheet9''))
   \<and> fst (read_cell_value plain_library ''Sheet1'' ''not an address'' (at_rest (Some one_sheet)))
     = Inr (PStr (error_reading_cell ''not an address'' ''Sheet1'' ''invalid address''))
   \<and> fst (clear_range_content plain_library ''Sheet1'' ''not an address''
        (at_rest (Some one_sheet)))
     = Inr (PStr (error_clearing_range ''not an address'' ''Sheet1'' ''invalid address''))
   \<and> sheet_not_found ''Sheet1'' \<noteq>
       error_reading_cell ''not an address'' ''Sheet1'' ''invalid address''\<close>
proof -
  have j: \<open>json_loads plain_library ''[["a","b"],["c","d"]]'' =
     Loaded (PList [PList [PStr ''a'', PStr ''b''], PList [PStr ''c'', PStr ''d'']])\<close>
    by (simp add: plain_library_def table_json)
  have n: "''Sheet9'' \<notin> set (map name one_sheet)" "''Sheet1'' \<in> set (map name one_sheet)"
    by (simp_all add: one_sheet_def)
  have r: "resolve plain_library ''not an address'' = Inl ''invalid address''"
    by (simp add: plain_library_def not_an_address)
  have h: "app_fault plain_library = None" "open_fault plain_library = None"
    "sheets_fault plain_library = None" "save_fault plain_library = None"
    "stored (at_rest (Some one_sheet)) = Some one_sheet"
    by (simp_all add: plain_library_def at_rest_def)
  have *: "is_list (PList [PList [PStr ''a'', PStr ''b''], PList [PStr ''c'', PStr ''d'']])"
    "list_all is_list (unlist (PList [PList [PStr ''a'', PStr ''b''], PList [PStr ''c'', PStr ''d'']]))"
    by simp_all
  from absent_sheet_and_invalid_address_are_told_apart
         [OF h j *, where sheet_name = "''Sheet9''" and address = "''not an address''"]
    absent_sheet_and_invalid_address_are_told_apart
         [OF h j *, where sheet_name = "''Sheet1''" and address = "''not an address''"
            and e = "''invalid address''" and s = "''Sheet1''"]
    n r
  show ?thesis by simp
qed

text \<open>
  The claim as written fails for a range write: with a sheet name the workbook does not
  hold and the payload \<^verbatim>\<open>not valid json\<close>, the tool reports the payload, and the text
  it returns is not the text for a missing sheet.
\<close>

theorem malformed_payload_hides_absent_sheet_counterexample:
  "''Sheet9'' \<notin> set (map name one_sheet)
   \<and> fst (write_range_values plain_library ''Sheet9'' ''A1'' ''not valid json''
        (at_rest (Some one_sheet))) = Inr (PStr not_json_message)
   \<and> not_json_message \<noteq> sheet_not_found ''Sheet9''"
  by (simp add: not_valid_json write_range_values_def safe_excel_operation_def session_def
      release_def write_range_def plain_library_def at_rest_def one_sheet_def Let_def
      not_json_message_def sheet_not_found_def)

section \<open>Writing a block and reading it back\<close>







section \<open>Which instruction the endpoint returns\<close>





section \<open>The descriptors on the wire\<close>

text \<open>What the loop over the sources leaves is what it started from or a dict among the tool outputs.\<close>

lemma scan_sources_result:
  "scan_sources extracted srcs = Some d \<Longrightarrow>
   extracted = Some d \<or> (is_dict d \<and> d \<in> tool_output_result ` set srcs)"
proof (induction srcs arbitrary: extracted)
  case Nil
  then show ?case by simp
next
  case (Cons src rest)
  show ?case
  proof (cases "is_dict (tool_output_result src)")
    case True
    show ?thesis
    proof (cases "dict_get (tool_output_result src) ''action'' \<noteq> Some (PStr ''inform_user'')")
      case True
      with \<open>is_dict (tool_output_result src)\<close> Cons.prems show ?thesis
        by (auto simp: Let_def)
    next
      case False
      with True Cons.prems
      have "scan_sources (Some (tool_output_result src)) rest = Some d"
        by (simp add: Let_def)
      from Cons.IH [OF this] True show ?thesis by auto
    qed
  next
    case False
    with Cons.prems have "scan_sources extracted rest = Some d" by (simp add: Let_def)
    from Cons.IH [OF this] show ?thesis by auto
  qed
qed

lemma truthy_dict: "is_dict d \<Longrightarrow> truthy (Some d) = (d \<noteq> PDict [])"
  by (cases d) auto

text \<open>
  Claim C8. Each instruction generator returns, for all arguments, the descriptor that
  section 6 of the specification gives for its own action: the key \<^verbatim>\<open>action\<close> with
  the tag of the action, then the fields of that tag, by the names and in the order of
  the table, each with the argument of that name. The generator of range writes returns
  the \<^verbatim>\<open>write_range\<close> descriptor, carrying the parsed rows, when \<^verbatim>\<open>json.loads\<close> reads
  the payload as a list of lists, an \<^verbatim>\<open>error\<close> descriptor when it reads another value
  or raises \<^verbatim>\<open>JSONDecodeError\<close>, and no descriptor when \<^verbatim>\<open>json.loads\<close> raises another
  exception, which leaves the generator. The endpoint answers with a dict among the tool
  outputs of the sources, as it is, when the loop over the sources leaves one that is
  not empty; otherwise with the \<^verbatim>\<open>inform_user\<close> descriptor of section 6 for the text of
  the reply, or, when there is no text, with the \<^verbatim>\<open>error\<close> descriptor.
\<close>

theorem descriptors_follow_the_wire_contract:
  "descriptor ''read_cell'' [PStr wb, PStr sh, PStr a] =
     Some (generate_read_cell_instruction wb sh a)
   \<and> descriptor ''write_cell'' [PStr wb, PStr sh, PStr a, PStr v] =
       Some (generate_write_cell_instruction wb sh a v)
   \<and> descriptor ''read_range'' [PStr wb, PStr sh, PStr a] =
       Some (generate_read_range_instruction wb sh a)
   \<and> (case json_loads lib vj of
        Loaded data \<Rightarrow>
          if is_list data \<and> list_all is_list (unlist data)
          then map_option Inr (descriptor ''write_range'' [PStr wb, PStr sh, PStr a, data])
          else map_option Inr
                 (descriptor ''error''
                    [PStr ''Error: The provided data for writing range is not a valid JSON list of lists.''])
      | JSONDecodeError \<Rightarrow>
          map_option Inr
            (descriptor ''error''
               [PStr ''Error: The provided data for writing range is not a valid JSON string.''])
      | LoadError e \<Rightarrow> Some (Inl e)) =
       Some (generate_write_range_instruction lib wb sh a vj)
   \<and> descriptor ''get_sheet_names'' [PStr wb] = Some (generate_get_sheet_names_instruction wb)
   \<and> descriptor ''clear_range_content'' [PStr wb, PStr sh, PStr a] =
       Some (generate_clear_range_content_instruction wb sh a)
   \<and> descriptor ''inform_user'' [PStr m] = Some (generate_inform_user_instruction m)
   \<and> descriptor ''create_bar_chart'' [PStr wb, PStr sh, PStr dr, PStr ct, PStr dc] =
       Some (generate_create_bar_chart_instruction wb sh dr ct dc)
   \<and> descriptor ''write_formula'' [PStr wb, PStr sh, PStr a, PStr f] =
       Some (generate_write_formula_instruction wb sh a f)
   \<and> descriptor ''apply_conditional_formatting'' [PStr wb, PStr sh, PStr a, PStr co, PStr ft] =
       Some (generate_apply_conditional_formatting_instruction wb sh a co ft)
   \<and> descriptor ''create_pivot_table''
         [PStr wb, PStr ss, PStr sr, PStr ds, PStr dc, PStr rf, PStr vf, PStr fn] =
       Some (generate_create_pivot_table_instruction wb ss sr ds dc rf vf fn)
   \<and> (scan_sources None (sources reply) = Some d \<and> d \<noteq> PDict [] \<longrightarrow>
        handle_excel_command (Inr reply) = Reply d
        \<and> is_dict d \<and> d \<in> tool_output_result ` set (sources reply))
   \<and> (\<not> truthy (scan_sources None (sources reply)) \<and> response reply \<noteq> [] \<longrightarrow>
        map_option Reply (descriptor ''inform_user'' [PStr (response reply)]) =
          Some (handle_excel_command (Inr reply)))
   \<and> (\<not> truthy (scan_sources None (sources reply)) \<and> response reply = [] \<longrightarrow>
        map_option Reply
          (descriptor ''error'' [PStr ''Backend failed to generate a valid instruction.'']) =
          Some (handle_excel_command (Inr reply)))"
proof -
  have generators:
    "descriptor ''read_cell'' [PStr wb, PStr sh, PStr a] =
       Some (generate_read_cell_instruction wb sh a)"
    "descriptor ''write_cell'' [PStr wb, PStr sh, PStr a, PStr v] =
       Some (generate_write_cell_instruction wb sh a v)"
    "descriptor ''read_range'' [PStr wb, PStr sh, PStr a] =
       Some (generate_read_range_instruction wb sh a)"
    "descriptor ''get_sheet_names'' [PStr wb] = Some (generate_get_sheet_names_instruction wb)"
    "descriptor ''clear_range_content'' [PStr wb, PStr sh, PStr a] =
       Some (generate_clear_range_content_instruction wb sh a)"
    "descriptor ''inform_user'' [PStr m] = Some (generate_inform_user_instruction m)"
    "descriptor ''create_bar_chart'' [PStr wb, PStr sh, PStr dr, PStr ct, PStr dc] =
       Some (generate_create_bar_chart_instruction wb sh dr ct dc)"
    "descriptor ''write_formula'' [PStr wb, PStr sh, PStr a, PStr f] =
       Some (generate_write_formula_instruction wb sh a f)"
    "descriptor ''apply_conditional_formatting'' [PStr wb, PStr sh, PStr a, PStr co, PStr ft] =
       Some (generate_apply_conditional_formatting_instruction wb sh a co ft)"
    "descriptor ''create_pivot_table''
         [PStr wb, PStr ss, PStr sr, PStr ds, PStr dc, PStr rf, PStr vf, PStr fn] =
       Some (generate_create_pivot_table_instruction wb ss sr ds dc rf vf fn)"
    by (simp_all add: descriptor_def wire_contract_def generate_read_cell_instruction_def
        generate_write_cell_instruction_def generate_read_range_instruction_def
        generate_get_sheet_names_instruction_def
        generate_clear_range_content_instruction_def generate_inform_user_instruction_def
        generate_create_bar_chart_instruction_def generate_write_formula_instruction_def
        generate_apply_conditional_formatting_instruction_def
        generate_create_pivot_table_instruction_def)
  have write_range:
    "(case json_loads lib vj of
        Loaded data \<Rightarrow>
          if is_list data \<and> list_all is_list (unlist data)
          then map_option Inr (descriptor ''write_range'' [PStr wb, PStr sh, PStr a, data])
          else map_option Inr
                 (descriptor ''error''
                    [PStr ''Error: The provided data for writing range is not a valid JSON list of lists.''])
      | JSONDecodeError \<Rightarrow>
          map_option Inr
            (descriptor ''error''
               [PStr ''Error: The provided data for writing range is not a valid JSON string.''])
      | LoadError e \<Rightarrow> Some (Inl e)) =
       Some (generate_write_range_instruction lib wb sh a vj)"
    by (simp add: descriptor_def wire_contract_def generate_write_range_instruction_def
        split: loaded.split)
  have passed_on:
    "scan_sources None (sources reply) = Some d \<and> d \<noteq> PDict [] \<longrightarrow>
        handle_excel_command (Inr reply) = Reply d
        \<and> is_dict d \<and> d \<in> tool_output_result ` set (sources reply)"
  proof
    assume h: "scan_sources None (sources reply) = Some d \<and> d \<noteq> PDict []"
    with scan_sources_result [of None "sources reply" d]
    have m: "is_dict d" "d \<in> tool_output_result ` set (sources reply)" by simp_all
    with h have "truthy (Some d)" by (simp add: truthy_dict)
    with h m show "handle_excel_command (Inr reply) = Reply d
        \<and> is_dict d \<and> d \<in> tool_output_result ` set (sources reply)"
      by (simp add: handle_excel_command_def Let_def)
  qed
  have fallbacks:
    "\<not> truthy (scan_sources None (sources reply)) \<and> response reply \<noteq> [] \<longrightarrow>
        map_option Reply (descriptor ''inform_user'' [PStr (response reply)]) =
          Some (handle_excel_command (Inr reply))"
    "\<not> truthy (scan_sources None (sources reply)) \<and> response reply = [] \<longrightarrow>
        map_option Reply
          (descriptor ''error'' [PStr ''Backend failed to generate a valid instruction.'']) =
          Some (handle_excel_command (Inr reply))"
    by (simp_all add: handle_excel_command_def Let_def descriptor_def wire_contract_def)
  from generators write_range passed_on fallbacks show ?thesis
    by (simp only: simp_thms)
qed

theorem descriptors_follow_the_wire_contract_witness:
  "handle_excel_command
     (Inr \<lparr>sources =
             [\<lparr>raw_output = Some (generate_get_sheet_names_instruction ''Book1''),
               metadata = None\<rparr>],
           response = []\<rparr>) =
     Reply (PDict [(''action'', PStr ''get_sheet_names''), (''workbook_name'', PStr ''Book1'')])
   \<and> handle_excel_command (Inr \<lparr>sources = [], response = ''Hello.''\<rparr>) =
       Reply (PDict [(''action'', PStr ''inform_user''), (''message'', PStr ''Hello.'')])
   \<and> handle_excel_command (Inr \<lparr>sources = [], response = []\<rparr>) =
       Reply (PDict [(''action'', PStr ''error''),
                     (''message'', PStr ''Backend failed to generate a valid instruction.'')])"
proof -
  let ?d = "PDict [(''action'', PStr ''get_sheet_names''), (''workbook_name'', PStr ''Book1'')]"
  let ?reply = "\<lparr>sources =
             [\<lparr>raw_output = Some (generate_get_sheet_names_instruction ''Book1''),
               metadata = None\<rparr>],
           response = []\<rparr>"
  have s: "scan_sources None (sources ?reply) = Some ?d"
    by (simp add: tool_output_result_def generate_get_sheet_names_instruction_def Let_def)
  have i: "descriptor ''inform_user'' [PStr ''Hello.''] =
             Some (PDict [(''action'', PStr ''inform_user''), (''message'', PStr ''Hello.'')])"
    "descriptor ''error'' [PStr ''Backend failed to generate a valid instruction.''] =
       Some (PDict [(''action'', PStr ''error''),
                     (''message'', PStr ''Backend failed to generate a valid instruction.'')])"
    by (simp_all add: descriptor_def wire_contract_def)
  show ?thesis
    using descriptors_follow_the_wire_contract [where reply = ?reply and d = ?d]
      descriptors_follow_the_wire_contract
        [where reply = "\<lparr>sources = [], response = ''Hello.''\<rparr>"]
      descriptors_follow_the_wire_contract
        [where reply = "\<lparr>sources = [], response = []\<rparr>"]
      s i
    by simp
qed

end
